theory Spec2Isabelle
  imports Main "HOL-Library.Word"
begin

unbundle bit_operations_syntax

section \<open>Machine types\<close>

text \<open>
  A \<^verbatim>\<open>char\<close> is held as its 8-bit pattern, \<^verbatim>\<open>std::uint32_t\<close> and the 32-bit
  \<^verbatim>\<open>int\<close> of the integral promotions as 32-bit words, \<^verbatim>\<open>std::size_t\<close> as a
  64-bit word.  Whether plain \<^verbatim>\<open>char\<close> is a signed type is fixed by the platform,
  not by the source; it is the parameter \<open>char_signed\<close> of every function whose
  result depends on it.
\<close>

type_synonym byte = "8 word"
type_synonym uint32_t = "32 word"
type_synonym size_t = "64 word"

text \<open>\<^verbatim>\<open>std::numeric_limits<std::size_t>::max()\<close>\<close>

definition SIZE_MAX :: size_t where
  "SIZE_MAX = - 1"

section \<open>FourCC identifiers (IO/Common.hpp, lines 24-70)\<close>

datatype FourCCEndian = LITTLE | BIG

text \<open>\<^verbatim>\<open>static_cast<bool>(endian)\<close>: \<^verbatim>\<open>LITTLE = 0\<close>, \<^verbatim>\<open>BIG = 1\<close>.\<close>

fun endian_bool :: "FourCCEndian \<Rightarrow> bool" where
  "endian_bool LITTLE = False"
| "endian_bool BIG = True"

text \<open>
  The \<^verbatim>\<open>StringLiteral\<close> template argument is its member array \<^verbatim>\<open>value\<close>: the
  characters of the literal followed by the terminating zero.
\<close>

type_synonym StringLiteral = "byte list"

definition string_literal :: "byte list \<Rightarrow> StringLiteral" where
  "string_literal s = s @ [0]"

text \<open>
  Integral promotion of a \<^verbatim>\<open>char\<close> operand of \<^verbatim>\<open><<\<close> and \<^verbatim>\<open>|\<close> to \<^verbatim>\<open>int\<close>:
  sign extension where plain \<^verbatim>\<open>char\<close> is signed, zero extension where it is not.
\<close>

definition promote :: "bool \<Rightarrow> byte \<Rightarrow> uint32_t" where
  "promote char_signed c = (if char_signed then scast c else ucast c)"

text \<open>
  \<^verbatim>\<open>FourCC<fourcc, endian>\<close>.  The shifts and ors are computed on \<^verbatim>\<open>int\<close> and the
  result initialises a \<^verbatim>\<open>std::uint32_t\<close>, which keeps the bit pattern.  Reading
  \<^verbatim>\<open>value[3]\<close> of a literal with fewer than four array elements is not a constant
  expression: the instantiation has no value (\<open>None\<close>).
\<close>

definition FourCC :: "bool \<Rightarrow> StringLiteral \<Rightarrow> FourCCEndian \<Rightarrow> uint32_t option" where
  "FourCC char_signed fourcc endian =
     (if length fourcc < 4 then None
      else Some
        (if endian_bool endian
         then push_bit 24 (promote char_signed (fourcc ! 3))
                OR push_bit 16 (promote char_signed (fourcc ! 2))
                OR push_bit 8 (promote char_signed (fourcc ! 1))
                OR promote char_signed (fourcc ! 0)
         else push_bit 24 (promote char_signed (fourcc ! 0))
                OR push_bit 16 (promote char_signed (fourcc ! 1))
                OR push_bit 8 (promote char_signed (fourcc ! 2))
                OR promote char_signed (fourcc ! 3)))"

text \<open>
  An element of the braced initialiser of a \<^verbatim>\<open>char\<close> array, given as a constant of
  type \<^verbatim>\<open>std::uint32_t\<close>: the conversion is narrowing, and the initialiser is
  well-formed only if the constant fits the range of \<^verbatim>\<open>char\<close>.
\<close>

definition narrow_char :: "bool \<Rightarrow> uint32_t \<Rightarrow> byte option" where
  "narrow_char char_signed v =
     (if (if char_signed then v \<le> 127 else v \<le> 255) then Some (ucast v) else None)"

text \<open>
  \<^verbatim>\<open>FourCCStr<fourcc_int, endian>\<close>: the five elements of the array, the last
  being the terminating zero.
\<close>

definition FourCCStr :: "bool \<Rightarrow> uint32_t \<Rightarrow> FourCCEndian \<Rightarrow> byte list option" where
  "FourCCStr char_signed fourcc_int endian =
     (case (narrow_char char_signed
              (if endian_bool endian then fourcc_int AND 0xFF
               else drop_bit 24 fourcc_int AND 0xFF),
            narrow_char char_signed
              (if endian_bool endian then drop_bit 8 fourcc_int AND 0xFF
               else drop_bit 16 fourcc_int AND 0xFF),
            narrow_char char_signed
              (if endian_bool endian then drop_bit 16 fourcc_int AND 0xFF
               else drop_bit 8 fourcc_int AND 0xFF),
            narrow_char char_signed
              (if endian_bool endian then drop_bit 24 fourcc_int AND 0xFF
               else fourcc_int AND 0xFF)) of
        (Some c0, Some c1, Some c2, Some c3) \<Rightarrow> Some [c0, c1, c2, c3, 0]
      | _ \<Rightarrow> None)"

text \<open>
  The nested instantiation \<^verbatim>\<open>FourCCStr<FourCC<s, e>, e>\<close> for the literal with the
  characters \<open>s\<close>.
\<close>

definition FourCCStr_of_FourCC :: "bool \<Rightarrow> byte list \<Rightarrow> FourCCEndian \<Rightarrow> byte list option" where
  "FourCCStr_of_FourCC char_signed s e =
     (case FourCC char_signed (string_literal s) e of
        None \<Rightarrow> None
      | Some fourcc_int \<Rightarrow> FourCCStr char_signed fourcc_int e)"

text \<open>The bytes of an ASCII text.\<close>

definition ascii :: "string \<Rightarrow> byte list" where
  "ascii s = map of_char s"

text \<open>
  \<^verbatim>\<open>std::string(const char*)\<close>: the characters before the first zero of the array.
\<close>

definition c_str :: "byte list \<Rightarrow> byte list" where
  "c_str a = takeWhile (\<lambda>c. c \<noteq> 0) a"

text \<open>
  \<^verbatim>\<open>FourCCToStr(fourcc, is_big_endian)\<close>.  \<^verbatim>\<open>static_cast<char>\<close> of a value below
  256 keeps its low eight bits.
\<close>

definition FourCCToStr :: "uint32_t \<Rightarrow> bool \<Rightarrow> byte list" where
  "FourCCToStr fourcc is_big_endian =
     (let fourcc_str =
        [ucast (if is_big_endian then fourcc AND 0xFF else drop_bit 24 fourcc AND 0xFF),
         ucast (if is_big_endian then drop_bit 8 fourcc AND 0xFF else drop_bit 16 fourcc AND 0xFF),
         ucast (if is_big_endian then drop_bit 16 fourcc AND 0xFF else drop_bit 8 fourcc AND 0xFF),
         ucast (if is_big_endian then drop_bit 24 fourcc AND 0xFF else fourcc AND 0xFF),
         0 :: byte]
      in c_str fourcc_str)"

text \<open>Four bytes packed with the first one in the most significant position.\<close>

definition pack :: "byte \<Rightarrow> byte \<Rightarrow> byte \<Rightarrow> byte \<Rightarrow> uint32_t" where
  "pack a b c d = push_bit 24 (ucast a) OR push_bit 16 (ucast b) OR push_bit 8 (ucast c) OR ucast d"

section \<open>Errors and the byte buffer\<close>

text \<open>
  The chunk classes throw nothing.  A violated contract (\<^verbatim>\<open>Validation/Contracts.hpp\<close>, checked in
  debug builds) ends the run with \<open>Contract_violation\<close>; a call whose \<^verbatim>\<open>requires\<close> clause
  is not satisfied does not compile and is \<open>No_such_operation\<close>.
\<close>

datatype error = Contract_violation | No_such_operation

text \<open>
  Modelled from the spec: \<^verbatim>\<open>IO/ByteBuffer.hpp\<close> is not among the sources.  The byte stream
  is a sequence of bytes with a cursor: a read of \<open>n\<close> raw bytes takes them at the cursor and
  advances it, and is a contract violation when it leaves the buffer; a write appends.
\<close>

record ByteBuffer =
  buf_bytes :: "byte list"
  buf_pos :: nat

text \<open>
  Modelled from the spec: the \<open>n\<close> raw bytes at the cursor of the byte stream
  (\<^verbatim>\<open>IO/ByteBuffer.hpp\<close> is absent).
\<close>

definition next_bytes :: "ByteBuffer \<Rightarrow> nat \<Rightarrow> byte list" where
  "next_bytes buf n = take n (drop (buf_pos buf) (buf_bytes buf))"

text \<open>
  Modelled from the spec: the read of \<open>n\<close> raw bytes from the cursor of the byte stream
  (\<^verbatim>\<open>IO/ByteBuffer.hpp\<close> is absent).  It never fails for an in-bounds request; an
  out-of-bounds request is a contract violation.
\<close>

definition buf_Read :: "ByteBuffer \<Rightarrow> nat \<Rightarrow> error + (byte list \<times> ByteBuffer)" where
  "buf_Read buf n =
     (if buf_pos buf + n \<le> length (buf_bytes buf)
      then Inr (next_bytes buf n, buf\<lparr>buf_pos := buf_pos buf + n\<rparr>)
      else Inl Contract_violation)"

text \<open>
  Modelled from the spec: the append of raw bytes to the byte stream
  (\<^verbatim>\<open>IO/ByteBuffer.hpp\<close> is absent).
\<close>

definition buf_Write :: "ByteBuffer \<Rightarrow> byte list \<Rightarrow> ByteBuffer" where
  "buf_Write buf bs = buf\<lparr>buf_bytes := buf_bytes buf @ bs\<rparr>"

section \<open>DataChunk (IO/Common.hpp, lines 137-212)\<close>

text \<open>
  A value of the POD type \<^verbatim>\<open>T\<close> is held as its object representation, a list of
  \<^verbatim>\<open>sizeof(T)\<close> bytes.  The record has the two data members of the struct.
\<close>

type_synonym T = "byte list"

record DataChunk =
  dc_data :: T
  dc_is_initialized :: bool

text \<open>
  \<^verbatim>\<open>DataChunk() = default\<close>: the flag has its default member initialiser \<^verbatim>\<open>false\<close>, and
  \<^verbatim>\<open>data\<close> holds whatever the storage \<open>junk\<close> held.
\<close>

definition DataChunk_new :: "T \<Rightarrow> DataChunk" where
  "DataChunk_new junk = \<lparr>dc_data = junk, dc_is_initialized = False\<rparr>"

definition dc_IsInitialized :: "DataChunk \<Rightarrow> bool" where
  "dc_IsInitialized c = dc_is_initialized c"

definition dc_ByteSize :: "size_t \<Rightarrow> DataChunk \<Rightarrow> size_t" where
  "dc_ByteSize sizeof_T c = sizeof_T"

text \<open>
  Assignment to the public member \<^verbatim>\<open>data\<close>, or through \<^verbatim>\<open>operator T&\<close> and
  \<^verbatim>\<open>operator T*\<close>.
\<close>

definition dc_assign :: "DataChunk \<Rightarrow> T \<Rightarrow> DataChunk" where
  "dc_assign c v = c\<lparr>dc_data := v\<rparr>"

text \<open>
  Modelled from the spec: \<^verbatim>\<open>DataChunk::Initialize()\<close> (the bodies of the member functions
  declared in the header are in \<^verbatim>\<open>IO/Common.inl\<close>, which is not among the sources) sets
  the value to its default state \<open>T_default\<close> and marks the chunk initialized.
\<close>

definition dc_Initialize :: "T \<Rightarrow> DataChunk \<Rightarrow> DataChunk" where
  "dc_Initialize T_default c = c\<lparr>dc_data := T_default, dc_is_initialized := True\<rparr>"

text \<open>
  Modelled from the spec: \<^verbatim>\<open>DataChunk::Initialize(data_block)\<close> (body in the absent
  \<^verbatim>\<open>IO/Common.inl\<close>) copies the value in and marks the chunk initialized.
\<close>

definition dc_Initialize_value :: "DataChunk \<Rightarrow> T \<Rightarrow> DataChunk" where
  "dc_Initialize_value c data_block = c\<lparr>dc_data := data_block, dc_is_initialized := True\<rparr>"

text \<open>
  Modelled from the spec: \<^verbatim>\<open>DataChunk::Read\<close> (body in the absent \<^verbatim>\<open>IO/Common.inl\<close>)
  requires \<^verbatim>\<open>size == sizeof(T)\<close>, copies \<^verbatim>\<open>size\<close> bytes from the stream into the value and
  marks the chunk initialized.  The parameter \<^verbatim>\<open>size\<close> is written \<open>sz\<close>.
\<close>

definition dc_Read :: "size_t \<Rightarrow> DataChunk \<Rightarrow> ByteBuffer \<Rightarrow> size_t \<Rightarrow> error + (DataChunk \<times> ByteBuffer)" where
  "dc_Read sizeof_T c buf sz =
     (if sz \<noteq> sizeof_T then Inl Contract_violation
      else case buf_Read buf (unat sz) of
             Inl e \<Rightarrow> Inl e
           | Inr (bytes, buf') \<Rightarrow> Inr (c\<lparr>dc_data := bytes, dc_is_initialized := True\<rparr>, buf'))"

text \<open>
  Modelled from the spec: \<^verbatim>\<open>DataChunk::Write\<close> (body in the absent \<^verbatim>\<open>IO/Common.inl\<close>)
  requires \<^verbatim>\<open>IsInitialized()\<close> and appends the raw bytes of the value to the stream.
\<close>

definition dc_Write :: "DataChunk \<Rightarrow> ByteBuffer \<Rightarrow> error + ByteBuffer" where
  "dc_Write c buf =
     (if \<not> dc_IsInitialized c then Inl Contract_violation
      else Inr (buf_Write buf (dc_data c)))"

text \<open>
  The operations that can be applied to a \<^verbatim>\<open>DataChunk\<close> object, one step and a run of them.
  A run ends at the first violated contract.  \<open>dc_initializes\<close> holds for the
  \<^verbatim>\<open>Initialize\<close> overloads and \<^verbatim>\<open>Read\<close>.
\<close>

datatype dc_op =
    DC_Initialize
  | DC_Initialize_value T
  | DC_Read ByteBuffer size_t
  | DC_Write ByteBuffer
  | DC_assign T

fun dc_initializes :: "dc_op \<Rightarrow> bool" where
  "dc_initializes DC_Initialize = True"
| "dc_initializes (DC_Initialize_value v) = True"
| "dc_initializes (DC_Read buf sz) = True"
| "dc_initializes (DC_Write buf) = False"
| "dc_initializes (DC_assign v) = False"

fun dc_step :: "size_t \<Rightarrow> T \<Rightarrow> dc_op \<Rightarrow> DataChunk \<Rightarrow> error + DataChunk" where
  "dc_step sizeof_T T_default DC_Initialize c = Inr (dc_Initialize T_default c)"
| "dc_step sizeof_T T_default (DC_Initialize_value v) c = Inr (dc_Initialize_value c v)"
| "dc_step sizeof_T T_default (DC_Read buf sz) c =
     (case dc_Read sizeof_T c buf sz of Inl e \<Rightarrow> Inl e | Inr (c', buf') \<Rightarrow> Inr c')"
| "dc_step sizeof_T T_default (DC_Write buf) c =
     (case dc_Write c buf of Inl e \<Rightarrow> Inl e | Inr buf' \<Rightarrow> Inr c)"
| "dc_step sizeof_T T_default (DC_assign v) c = Inr (dc_assign c v)"

fun dc_run :: "size_t \<Rightarrow> T \<Rightarrow> dc_op list \<Rightarrow> DataChunk \<Rightarrow> error + DataChunk" where
  "dc_run sizeof_T T_default [] c = Inr c"
| "dc_run sizeof_T T_default (op # ops) c =
     (case dc_step sizeof_T T_default op c of
        Inl e \<Rightarrow> Inl e
      | Inr c' \<Rightarrow> dc_run sizeof_T T_default ops c')"

section \<open>DataArrayChunk (IO/Common.hpp, lines 237-381)\<close>

text \<open>
  \<^verbatim>\<open>ArrayImplT\<close>: the container type selected by the size bounds, a \<^verbatim>\<open>std::array\<close> of
  \<^verbatim>\<open>size_max\<close> elements or a \<^verbatim>\<open>std::vector\<close>.
\<close>

datatype ContainerT = std_array size_t | std_vector

definition ArrayImplT :: "size_t \<Rightarrow> size_t \<Rightarrow> ContainerT" where
  "ArrayImplT size_min size_max =
     (if size_max = size_min \<and> size_max < SIZE_MAX then std_array size_max else std_vector)"

text \<open>
  The \<^verbatim>\<open>requires\<close> clauses of \<^verbatim>\<open>Add\<close>, \<^verbatim>\<open>Remove(std::size_t)\<close>, \<^verbatim>\<open>Remove(iterator)\<close> and
  \<^verbatim>\<open>Clear\<close>: \<^verbatim>\<open>std::is_same_v<ArrayImplT_, std::vector<T>>\<close>, where \<^verbatim>\<open>ArrayImplT_\<close> is the
  default \<^verbatim>\<open>ArrayImplT\<close> (it follows a parameter pack and cannot be given explicitly).  They
  are functions of the template arguments alone.
\<close>

definition Add_requires :: "size_t \<Rightarrow> size_t \<Rightarrow> bool" where
  "Add_requires size_min size_max \<longleftrightarrow> ArrayImplT size_min size_max = std_vector"

definition Remove_requires :: "size_t \<Rightarrow> size_t \<Rightarrow> bool" where
  "Remove_requires size_min size_max \<longleftrightarrow> ArrayImplT size_min size_max = std_vector"

definition Remove_iterator_requires :: "size_t \<Rightarrow> size_t \<Rightarrow> bool" where
  "Remove_iterator_requires size_min size_max \<longleftrightarrow> ArrayImplT size_min size_max = std_vector"

definition Clear_requires :: "size_t \<Rightarrow> size_t \<Rightarrow> bool" where
  "Clear_requires size_min size_max \<longleftrightarrow> ArrayImplT size_min size_max = std_vector"

text \<open>
  A value of either container type, with its elements in index order.  A \<^verbatim>\<open>std::array\<close>
  value has as many elements as its type says; no operation of \<^verbatim>\<open>std::array\<close> changes that.
\<close>

datatype container = Array "T list" | Vector "T list"

fun elements :: "container \<Rightarrow> T list" where
  "elements (Array xs) = xs"
| "elements (Vector xs) = xs"

text \<open>\<^verbatim>\<open>_data.size()\<close>\<close>

definition container_size :: "container \<Rightarrow> size_t" where
  "container_size d = of_nat (length (elements d))"

text \<open>
  A default-initialised container: an empty vector, or an array whose \<open>n\<close> slots hold
  whatever the storage \<open>junk\<close> held.
\<close>

fun default_container :: "ContainerT \<Rightarrow> (nat \<Rightarrow> T) \<Rightarrow> container" where
  "default_container (std_array n) junk = Array (map junk [0..<unat n])"
| "default_container std_vector junk = Vector []"

text \<open>A container value has the container type.\<close>

fun has_type :: "container \<Rightarrow> ContainerT \<Rightarrow> bool" where
  "has_type (Array xs) (std_array n) \<longleftrightarrow> length xs = unat n"
| "has_type (Vector xs) std_vector \<longleftrightarrow> True"
| "has_type (Array xs) std_vector \<longleftrightarrow> False"
| "has_type (Vector xs) (std_array n) \<longleftrightarrow> False"

record DataArrayChunk =
  dac_data :: container
  dac_is_initialized :: bool

definition DataArrayChunk_new :: "size_t \<Rightarrow> size_t \<Rightarrow> (nat \<Rightarrow> T) \<Rightarrow> DataArrayChunk" where
  "DataArrayChunk_new size_min size_max junk =
     \<lparr>dac_data = default_container (ArrayImplT size_min size_max) junk,
      dac_is_initialized = False\<rparr>"

definition dac_IsInitialized :: "DataArrayChunk \<Rightarrow> bool" where
  "dac_IsInitialized c = dac_is_initialized c"

definition dac_Size :: "DataArrayChunk \<Rightarrow> size_t" where
  "dac_Size c = container_size (dac_data c)"

definition dac_ByteSize :: "size_t \<Rightarrow> DataArrayChunk \<Rightarrow> size_t" where
  "dac_ByteSize sizeof_T c = container_size (dac_data c) * sizeof_T"

text \<open>
  The storage of the container: \<^verbatim>\<open>std::array\<close> and \<^verbatim>\<open>std::vector\<close> keep their elements
  contiguously, in index order.
\<close>

definition storage_bytes :: "container \<Rightarrow> byte list" where
  "storage_bytes d = concat (elements d)"

text \<open>
  Modelled from the spec: the debug-only cardinality contract of the array chunk (checked in
  the absent \<^verbatim>\<open>IO/Common.inl\<close>).  Whenever both bounds are finite the element count lies
  between them; for the fixed-capacity form that is \<open>n = size_max\<close>.
\<close>

definition cardinality_ok :: "size_t \<Rightarrow> size_t \<Rightarrow> nat \<Rightarrow> bool" where
  "cardinality_ok size_min size_max n \<longleftrightarrow>
     (if size_min < SIZE_MAX \<and> size_max < SIZE_MAX
      then unat size_min \<le> n \<and> n \<le> unat size_max else True)"

text \<open>A container of the selected type with the given elements.\<close>

fun make_container :: "ContainerT \<Rightarrow> T list \<Rightarrow> container" where
  "make_container (std_array n) xs = Array xs"
| "make_container std_vector xs = Vector xs"

text \<open>
  Modelled from the spec: \<^verbatim>\<open>DataArrayChunk::Initialize()\<close> (body in the absent
  \<^verbatim>\<open>IO/Common.inl\<close>) populates the storage and marks the chunk initialized.  It gives an
  empty vector, or an array of default values \<open>T_default\<close>.
\<close>

definition dac_Initialize :: "size_t \<Rightarrow> size_t \<Rightarrow> T \<Rightarrow> DataArrayChunk \<Rightarrow> DataArrayChunk" where
  "dac_Initialize size_min size_max T_default c =
     c\<lparr>dac_data :=
         (case ArrayImplT size_min size_max of
            std_array n \<Rightarrow> Array (replicate (unat n) T_default)
          | std_vector \<Rightarrow> Vector []),
       dac_is_initialized := True\<rparr>"

text \<open>
  Modelled from the spec: \<^verbatim>\<open>DataArrayChunk::Initialize(data_block, n)\<close> (body in the absent
  \<^verbatim>\<open>IO/Common.inl\<close>) populates the storage with \<open>n\<close> copies of the value and marks the
  chunk initialized; \<open>n\<close> is contract-checked against the bounds.
\<close>

definition dac_Initialize_n ::
  "size_t \<Rightarrow> size_t \<Rightarrow> DataArrayChunk \<Rightarrow> T \<Rightarrow> size_t \<Rightarrow> error + DataArrayChunk" where
  "dac_Initialize_n size_min size_max c data_block n =
     (if \<not> cardinality_ok size_min size_max (unat n) then Inl Contract_violation
      else Inr (c\<lparr>dac_data :=
                    make_container (ArrayImplT size_min size_max) (replicate (unat n) data_block),
                  dac_is_initialized := True\<rparr>))"

text \<open>
  Modelled from the spec: \<^verbatim>\<open>DataArrayChunk::Initialize(data_array)\<close> (body in the absent
  \<^verbatim>\<open>IO/Common.inl\<close>) copies an existing collection into the storage and marks the chunk
  initialized; the length of the collection is contract-checked against the bounds.
\<close>

definition dac_Initialize_array ::
  "size_t \<Rightarrow> size_t \<Rightarrow> DataArrayChunk \<Rightarrow> T list \<Rightarrow> error + DataArrayChunk" where
  "dac_Initialize_array size_min size_max c data_array =
     (if \<not> cardinality_ok size_min size_max (length data_array) then Inl Contract_violation
      else Inr (c\<lparr>dac_data := make_container (ArrayImplT size_min size_max) data_array,
                  dac_is_initialized := True\<rparr>))"

text \<open>
  Modelled from the spec: the loop of \<^verbatim>\<open>DataArrayChunk::Read\<close> (body in the absent
  \<^verbatim>\<open>IO/Common.inl\<close>), which reads \<open>count\<close> elements of \<open>n\<close> bytes each sequentially.
\<close>

fun read_elements :: "nat \<Rightarrow> nat \<Rightarrow> byte list \<Rightarrow> T list" where
  "read_elements n 0 bytes = []"
| "read_elements n (Suc count) bytes = take n bytes # read_elements n count (drop n bytes)"

text \<open>
  Modelled from the spec: \<^verbatim>\<open>DataArrayChunk::Read\<close> (body in the absent \<^verbatim>\<open>IO/Common.inl\<close>).
  \<^verbatim>\<open>size\<close> (written \<open>sz\<close>) must be a multiple of \<^verbatim>\<open>sizeof(T)\<close>; the element count is
  \<^verbatim>\<open>size / sizeof(T)\<close> and is contract-checked against the bounds; the elements are read
  sequentially in their native layout and the chunk is marked initialized.
\<close>

definition dac_Read ::
  "size_t \<Rightarrow> size_t \<Rightarrow> size_t \<Rightarrow> DataArrayChunk \<Rightarrow> ByteBuffer \<Rightarrow> size_t
   \<Rightarrow> error + (DataArrayChunk \<times> ByteBuffer)" where
  "dac_Read sizeof_T size_min size_max c buf sz =
     (if sz mod sizeof_T \<noteq> 0 then Inl Contract_violation
      else if \<not> cardinality_ok size_min size_max (unat (sz div sizeof_T))
      then Inl Contract_violation
      else case buf_Read buf (unat sz) of
             Inl e \<Rightarrow> Inl e
           | Inr (bytes, buf') \<Rightarrow>
               Inr (c\<lparr>dac_data :=
                        make_container (ArrayImplT size_min size_max)
                          (read_elements (unat sizeof_T) (unat (sz div sizeof_T)) bytes),
                      dac_is_initialized := True\<rparr>, buf'))"

text \<open>
  Modelled from the spec: \<^verbatim>\<open>DataArrayChunk::Write\<close> (body in the absent \<^verbatim>\<open>IO/Common.inl\<close>)
  emits the elements sequentially in storage order.
\<close>

definition dac_Write :: "DataArrayChunk \<Rightarrow> ByteBuffer \<Rightarrow> ByteBuffer" where
  "dac_Write c buf = buf_Write buf (storage_bytes (dac_data c))"

text \<open>
  Modelled from the spec: \<^verbatim>\<open>DataArrayChunk::Add()\<close> (body in the absent \<^verbatim>\<open>IO/Common.inl\<close>),
  for the growable form only, default-constructs a new trailing element; the reference it
  returns is to the last element.
\<close>

definition dac_Add :: "size_t \<Rightarrow> size_t \<Rightarrow> T \<Rightarrow> DataArrayChunk \<Rightarrow> error + DataArrayChunk" where
  "dac_Add size_min size_max T_default c =
     (if \<not> Add_requires size_min size_max then Inl No_such_operation
      else Inr (c\<lparr>dac_data := Vector (elements (dac_data c) @ [T_default])\<rparr>))"

text \<open>
  Modelled from the spec: \<^verbatim>\<open>DataArrayChunk::Remove(index)\<close> and \<^verbatim>\<open>Remove(iterator)\<close>, the
  iterator being the position of an element (bodies in the absent \<^verbatim>\<open>IO/Common.inl\<close>), for
  the growable form only, erase one element, which must be a live one, shifting the later
  ones.
\<close>

definition dac_Remove :: "size_t \<Rightarrow> size_t \<Rightarrow> DataArrayChunk \<Rightarrow> size_t \<Rightarrow> error + DataArrayChunk" where
  "dac_Remove size_min size_max c index =
     (if \<not> Remove_requires size_min size_max then Inl No_such_operation
      else if \<not> unat index < length (elements (dac_data c)) then Inl Contract_violation
      else Inr (c\<lparr>dac_data :=
                    Vector (take (unat index) (elements (dac_data c))
                            @ drop (Suc (unat index)) (elements (dac_data c)))\<rparr>))"

text \<open>
  Modelled from the spec: \<^verbatim>\<open>DataArrayChunk::Clear()\<close> (body in the absent
  \<^verbatim>\<open>IO/Common.inl\<close>), for the growable form only, empties the storage; the initialization
  flag stays as it is.
\<close>

definition dac_Clear :: "size_t \<Rightarrow> size_t \<Rightarrow> DataArrayChunk \<Rightarrow> error + DataArrayChunk" where
  "dac_Clear size_min size_max c =
     (if \<not> Clear_requires size_min size_max then Inl No_such_operation
      else Inr (c\<lparr>dac_data := Vector []\<rparr>))"

text \<open>
  Modelled from the spec: an element of the array chunk is mutable in place (through the
  reference of \<^verbatim>\<open>At\<close> and \<^verbatim>\<open>operator[]\<close>, bodies in the absent \<^verbatim>\<open>IO/Common.inl\<close>); the
  container keeps its kind and its length.
\<close>

fun container_update :: "container \<Rightarrow> nat \<Rightarrow> T \<Rightarrow> container" where
  "container_update (Array xs) i v = Array (xs[i := v])"
| "container_update (Vector xs) i v = Vector (xs[i := v])"

text \<open>
  Modelled from the spec: assignment through the reference returned by
  \<^verbatim>\<open>DataArrayChunk::At(index)\<close> or \<^verbatim>\<open>operator[]\<close> (bodies in the absent \<^verbatim>\<open>IO/Common.inl\<close>);
  the index is bounds-checked by a debug-only contract.
\<close>

definition dac_At_assign :: "DataArrayChunk \<Rightarrow> size_t \<Rightarrow> T \<Rightarrow> error + DataArrayChunk" where
  "dac_At_assign c index v =
     (if \<not> unat index < length (elements (dac_data c)) then Inl Contract_violation
      else Inr (c\<lparr>dac_data := container_update (dac_data c) (unat index) v\<rparr>))"

text \<open>
  The operations that can be applied to a \<^verbatim>\<open>DataArrayChunk\<close> object, one step and a run of
  them.  A run ends at the first violated contract or unavailable operation.
  \<open>dac_initializes\<close> holds for the \<^verbatim>\<open>Initialize\<close> overloads and \<^verbatim>\<open>Read\<close>.
\<close>

datatype dac_op =
    DAC_Initialize
  | DAC_Initialize_n T size_t
  | DAC_Initialize_array "T list"
  | DAC_Read ByteBuffer size_t
  | DAC_Write ByteBuffer
  | DAC_Add
  | DAC_Remove size_t
  | DAC_Clear
  | DAC_At_assign size_t T

fun dac_initializes :: "dac_op \<Rightarrow> bool" where
  "dac_initializes DAC_Initialize = True"
| "dac_initializes (DAC_Initialize_n v n) = True"
| "dac_initializes (DAC_Initialize_array xs) = True"
| "dac_initializes (DAC_Read buf sz) = True"
| "dac_initializes (DAC_Write buf) = False"
| "dac_initializes DAC_Add = False"
| "dac_initializes (DAC_Remove i) = False"
| "dac_initializes DAC_Clear = False"
| "dac_initializes (DAC_At_assign i v) = False"

fun dac_step ::
  "size_t \<Rightarrow> size_t \<Rightarrow> size_t \<Rightarrow> T \<Rightarrow> dac_op \<Rightarrow> DataArrayChunk \<Rightarrow> error + DataArrayChunk" where
  "dac_step sizeof_T size_min size_max T_default DAC_Initialize c =
     Inr (dac_Initialize size_min size_max T_default c)"
| "dac_step sizeof_T size_min size_max T_default (DAC_Initialize_n v n) c =
     dac_Initialize_n size_min size_max c v n"
| "dac_step sizeof_T size_min size_max T_default (DAC_Initialize_array xs) c =
     dac_Initialize_array size_min size_max c xs"
| "dac_step sizeof_T size_min size_max T_default (DAC_Read buf sz) c =
     (case dac_Read sizeof_T size_min size_max c buf sz of
        Inl e \<Rightarrow> Inl e
      | Inr (c', buf') \<Rightarrow> Inr c')"
| "dac_step sizeof_T size_min size_max T_default (DAC_Write buf) c = Inr c"
| "dac_step sizeof_T size_min size_max T_default DAC_Add c =
     dac_Add size_min size_max T_default c"
| "dac_step sizeof_T size_min size_max T_default (DAC_Remove i) c =
     dac_Remove size_min size_max c i"
| "dac_step sizeof_T size_min size_max T_default DAC_Clear c =
     dac_Clear size_min size_max c"
| "dac_step sizeof_T size_min size_max T_default (DAC_At_assign i v) c =
     dac_At_assign c i v"

fun dac_run ::
  "size_t \<Rightarrow> size_t \<Rightarrow> size_t \<Rightarrow> T \<Rightarrow> dac_op list \<Rightarrow> DataArrayChunk
   \<Rightarrow> error + DataArrayChunk" where
  "dac_run sizeof_T size_min size_max T_default [] c = Inr c"
| "dac_run sizeof_T size_min size_max T_default (op # ops) c =
     (case dac_step sizeof_T size_min size_max T_default op c of
        Inl e \<Rightarrow> Inl e
      | Inr c' \<Rightarrow> dac_run sizeof_T size_min size_max T_default ops c')"

section \<open>StringBlockChunk (IO/Common.hpp, lines 391-538)\<close>

datatype StringBlockChunkType = NORMAL | OFFSET

text \<open>
  \<^verbatim>\<open>ArrayImplT\<close> of the string block: a vector of strings for \<^verbatim>\<open>NORMAL\<close>, a vector of pairs
  of a 32-bit offset and a string for \<^verbatim>\<open>OFFSET\<close>.  A \<^verbatim>\<open>std::string\<close> is the list of its
  characters.
\<close>

datatype string_storage =
    Strings "byte list list"
  | Offset_strings "(uint32_t \<times> byte list) list"

fun empty_storage :: "StringBlockChunkType \<Rightarrow> string_storage" where
  "empty_storage NORMAL = Strings []"
| "empty_storage OFFSET = Offset_strings []"

fun storage_type :: "string_storage \<Rightarrow> StringBlockChunkType" where
  "storage_type (Strings ss) = NORMAL"
| "storage_type (Offset_strings es) = OFFSET"

fun stored_strings :: "string_storage \<Rightarrow> byte list list" where
  "stored_strings (Strings ss) = ss"
| "stored_strings (Offset_strings es) = map snd es"

record StringBlockChunk =
  sbc_is_initialized :: bool
  sbc_data :: string_storage

text \<open>\<^verbatim>\<open>StringBlockChunk() = default\<close>\<close>

definition StringBlockChunk_new :: "StringBlockChunkType \<Rightarrow> StringBlockChunk" where
  "StringBlockChunk_new type = \<lparr>sbc_is_initialized = False, sbc_data = empty_storage type\<rparr>"

definition sbc_IsInitialized :: "StringBlockChunk \<Rightarrow> bool" where
  "sbc_IsInitialized c = sbc_is_initialized c"

definition sbc_Size :: "StringBlockChunk \<Rightarrow> size_t" where
  "sbc_Size c = of_nat (length (stored_strings (sbc_data c)))"

text \<open>
  Modelled from the spec: the encoded length of the entries of a string block, the sum of
  each entry's length including its terminator (computed by
  \<^verbatim>\<open>StringBlockChunk::ByteSize\<close>, body in the absent \<^verbatim>\<open>IO/Common.inl\<close>).
\<close>

definition encoded_length :: "byte list list \<Rightarrow> nat" where
  "encoded_length ss = sum_list (map (\<lambda>s. length s + 1) ss)"

text \<open>
  Modelled from the spec: \<^verbatim>\<open>StringBlockChunk::ByteSize\<close> is only declared in the header (body
  in the absent \<^verbatim>\<open>IO/Common.inl\<close>).  It is the sum of each entry's encoded length including
  its terminator, as a \<^verbatim>\<open>std::size_t\<close>.
\<close>

definition sbc_ByteSize :: "StringBlockChunk \<Rightarrow> size_t" where
  "sbc_ByteSize c = of_nat (encoded_length (stored_strings (sbc_data c)))"

text \<open>
  Modelled from the spec: the offsets of the \<^verbatim>\<open>OFFSET\<close> variant are assigned by encoding
  order; an entry's offset is its position within the serialized block, the cumulative
  length of the entries before it.
\<close>

fun assign_offsets :: "nat \<Rightarrow> byte list list \<Rightarrow> (uint32_t \<times> byte list) list" where
  "assign_offsets pos [] = []"
| "assign_offsets pos (s # ss) = (of_nat pos, s) # assign_offsets (pos + length s + 1) ss"

text \<open>
  Modelled from the spec: \<^verbatim>\<open>StringBlockChunk::Initialize()\<close> (body in the absent
  \<^verbatim>\<open>IO/Common.inl\<close>) marks an empty block initialized.
\<close>

definition sbc_Initialize :: "StringBlockChunk \<Rightarrow> StringBlockChunk" where
  "sbc_Initialize c =
     c\<lparr>sbc_is_initialized := True, sbc_data := empty_storage (storage_type (sbc_data c))\<rparr>"

text \<open>
  Modelled from the spec: \<^verbatim>\<open>StringBlockChunk::Initialize(strings)\<close> (bodies in the absent
  \<^verbatim>\<open>IO/Common.inl\<close>) stores the list as given, preserving order and duplicates, for
  \<^verbatim>\<open>NORMAL\<close>; for \<^verbatim>\<open>OFFSET\<close> it stores each string with its offset by encoding order and
  does not deduplicate.  It marks the chunk initialized.
\<close>

definition sbc_Initialize_strings :: "StringBlockChunk \<Rightarrow> byte list list \<Rightarrow> StringBlockChunk" where
  "sbc_Initialize_strings c strings =
     c\<lparr>sbc_is_initialized := True,
       sbc_data := (case sbc_data c of
                      Strings ss \<Rightarrow> Strings strings
                    | Offset_strings es \<Rightarrow> Offset_strings (assign_offsets 0 strings))\<rparr>"

text \<open>
  Modelled from the spec: the scan of a null-terminated byte block (part of
  \<^verbatim>\<open>StringBlockChunk::Read\<close>, body in the absent \<^verbatim>\<open>IO/Common.inl\<close>).  The block is split on
  null terminators, one entry per terminated run, and each entry is recorded with its
  starting byte offset within the block.  \<open>start\<close> is the offset of the run being read and
  \<open>run\<close> its characters so far.  A trailing unterminated run is not handled here: it
  raises nothing and gives no entry.
\<close>

fun scan_block :: "nat \<Rightarrow> byte list \<Rightarrow> byte list \<Rightarrow> (nat \<times> byte list) list" where
  "scan_block start run [] = []"
| "scan_block start run (b # bytes) =
     (if b = 0
      then (start, run) # scan_block (start + length run + 1) [] bytes
      else scan_block start (run @ [b]) bytes)"

text \<open>
  Modelled from the spec: \<^verbatim>\<open>StringBlockChunk::Read\<close> (bodies in the absent
  \<^verbatim>\<open>IO/Common.inl\<close>) scans \<^verbatim>\<open>size\<close> (written \<open>sz\<close>) bytes; \<^verbatim>\<open>NORMAL\<close> keeps the strings,
  \<^verbatim>\<open>OFFSET\<close> also the starting offset of each; the chunk is marked initialized.  An
  unterminated run at the end of the block is no contract violation of this component.
\<close>

definition sbc_Read ::
  "StringBlockChunk \<Rightarrow> ByteBuffer \<Rightarrow> size_t \<Rightarrow> error + (StringBlockChunk \<times> ByteBuffer)" where
  "sbc_Read c buf sz =
     (case buf_Read buf (unat sz) of
        Inl e \<Rightarrow> Inl e
      | Inr (bytes, buf') \<Rightarrow>
          Inr (c\<lparr>sbc_is_initialized := True,
                 sbc_data :=
                   (case sbc_data c of
                      Strings ss \<Rightarrow> Strings (map snd (scan_block 0 [] bytes))
                    | Offset_strings es \<Rightarrow>
                        Offset_strings
                          (map (\<lambda>(pos, s). (of_nat pos, s)) (scan_block 0 [] bytes)))\<rparr>,
               buf'))"

text \<open>
  The part of a byte block up to and including its last null terminator: the block without
  its trailing unterminated run.
\<close>

definition terminated_part :: "byte list \<Rightarrow> byte list" where
  "terminated_part bytes = rev (dropWhile (\<lambda>b. b \<noteq> 0) (rev bytes))"

text \<open>
  Modelled from the spec: the payload of a string block, each entry's bytes followed by a
  null terminator, in storage order (emitted by \<^verbatim>\<open>StringBlockChunk::Write\<close>, body in the
  absent \<^verbatim>\<open>IO/Common.inl\<close>).
\<close>

definition encode_strings :: "byte list list \<Rightarrow> byte list" where
  "encode_strings ss = concat (map (\<lambda>s. s @ [0]) ss)"

text \<open>
  Modelled from the spec: \<^verbatim>\<open>StringBlockChunk::Write\<close> (body in the absent \<^verbatim>\<open>IO/Common.inl\<close>)
  emits each entry's bytes followed by a null terminator, in storage order.
\<close>

definition sbc_Write :: "StringBlockChunk \<Rightarrow> ByteBuffer \<Rightarrow> ByteBuffer" where
  "sbc_Write c buf = buf_Write buf (encode_strings (stored_strings (sbc_data c)))"

text \<open>
  Modelled from the spec: \<^verbatim>\<open>StringBlockChunk::Add\<close> (body in the absent \<^verbatim>\<open>IO/Common.inl\<close>).
  \<^verbatim>\<open>NORMAL\<close> appends unconditionally.  \<^verbatim>\<open>OFFSET\<close> scans the current entries for byte-identical
  content; if found, no new entry is added; otherwise it appends the string with the next
  sequential offset, the current total \<^verbatim>\<open>ByteSize()\<close> (a \<^verbatim>\<open>std::size_t\<close> stored in the
  \<^verbatim>\<open>std::uint32_t\<close> of the pair).
\<close>

definition sbc_Add :: "StringBlockChunk \<Rightarrow> byte list \<Rightarrow> StringBlockChunk" where
  "sbc_Add c string =
     (case sbc_data c of
        Strings ss \<Rightarrow> c\<lparr>sbc_data := Strings (ss @ [string])\<rparr>
      | Offset_strings es \<Rightarrow>
          (if string \<in> set (map snd es) then c
           else c\<lparr>sbc_data := Offset_strings (es @ [(ucast (sbc_ByteSize c), string)])\<rparr>))"

text \<open>
  Modelled from the spec: \<^verbatim>\<open>StringBlockChunk::Remove\<close>, by index or by the position an
  iterator points to (bodies in the absent \<^verbatim>\<open>IO/Common.inl\<close>), erases one live element; for
  \<^verbatim>\<open>OFFSET\<close> the offsets of every entry that followed it are renumbered, since they are
  cumulative byte lengths.
\<close>

definition sbc_Remove :: "StringBlockChunk \<Rightarrow> size_t \<Rightarrow> error + StringBlockChunk" where
  "sbc_Remove c index =
     (if \<not> unat index < length (stored_strings (sbc_data c)) then Inl Contract_violation
      else Inr (c\<lparr>sbc_data :=
                    (case sbc_data c of
                       Strings ss \<Rightarrow> Strings (take (unat index) ss @ drop (Suc (unat index)) ss)
                     | Offset_strings es \<Rightarrow>
                         Offset_strings
                           (take (unat index) es
                            @ map (\<lambda>(off, s). (off - of_nat (length (snd (es ! unat index)) + 1), s))
                                (drop (Suc (unat index)) es)))\<rparr>))"

text \<open>
  Modelled from the spec: \<^verbatim>\<open>StringBlockChunk::Clear()\<close> (body in the absent
  \<^verbatim>\<open>IO/Common.inl\<close>) empties the storage; the initialization flag stays as it is.
\<close>

definition sbc_Clear :: "StringBlockChunk \<Rightarrow> StringBlockChunk" where
  "sbc_Clear c = c\<lparr>sbc_data := empty_storage (storage_type (sbc_data c))\<rparr>"

text \<open>
  Modelled from the spec: assignment through the reference returned by \<^verbatim>\<open>At(index)\<close> or
  \<^verbatim>\<open>operator[]\<close> (bodies in the absent \<^verbatim>\<open>IO/Common.inl\<close>): the string of a \<^verbatim>\<open>NORMAL\<close> block or
  the offset-string pair of an \<^verbatim>\<open>OFFSET\<close> block at a position, bounds-checked by a debug-only
  contract.
\<close>

definition sbc_At_assign ::
  "StringBlockChunk \<Rightarrow> size_t \<Rightarrow> uint32_t \<times> byte list \<Rightarrow> error + StringBlockChunk" where
  "sbc_At_assign c index v =
     (if \<not> unat index < length (stored_strings (sbc_data c)) then Inl Contract_violation
      else Inr (c\<lparr>sbc_data :=
                    (case sbc_data c of
                       Strings ss \<Rightarrow> Strings (ss[unat index := snd v])
                     | Offset_strings es \<Rightarrow> Offset_strings (es[unat index := v]))\<rparr>))"

text \<open>
  The operations that can be applied to a \<^verbatim>\<open>StringBlockChunk\<close> object, one step and a run
  of them.  A run ends at the first violated contract.  \<open>sbc_initializes\<close> holds for the
  \<^verbatim>\<open>Initialize\<close> overloads and \<^verbatim>\<open>Read\<close>.
\<close>

datatype sbc_op =
    SBC_Initialize
  | SBC_Initialize_strings "byte list list"
  | SBC_Read ByteBuffer size_t
  | SBC_Write ByteBuffer
  | SBC_Add "byte list"
  | SBC_Remove size_t
  | SBC_Clear
  | SBC_At_assign size_t "uint32_t \<times> byte list"

fun sbc_initializes :: "sbc_op \<Rightarrow> bool" where
  "sbc_initializes SBC_Initialize = True"
| "sbc_initializes (SBC_Initialize_strings ss) = True"
| "sbc_initializes (SBC_Read buf sz) = True"
| "sbc_initializes (SBC_Write buf) = False"
| "sbc_initializes (SBC_Add s) = False"
| "sbc_initializes (SBC_Remove i) = False"
| "sbc_initializes SBC_Clear = False"
| "sbc_initializes (SBC_At_assign i v) = False"

fun sbc_step :: "sbc_op \<Rightarrow> StringBlockChunk \<Rightarrow> error + StringBlockChunk" where
  "sbc_step SBC_Initialize c = Inr (sbc_Initialize c)"
| "sbc_step (SBC_Initialize_strings ss) c = Inr (sbc_Initialize_strings c ss)"
| "sbc_step (SBC_Read buf sz) c =
     (case sbc_Read c buf sz of Inl e \<Rightarrow> Inl e | Inr (c', buf') \<Rightarrow> Inr c')"
| "sbc_step (SBC_Write buf) c = Inr c"
| "sbc_step (SBC_Add s) c = Inr (sbc_Add c s)"
| "sbc_step (SBC_Remove i) c = sbc_Remove c i"
| "sbc_step SBC_Clear c = Inr (sbc_Clear c)"
| "sbc_step (SBC_At_assign i v) c = sbc_At_assign c i v"

fun sbc_run :: "sbc_op list \<Rightarrow> StringBlockChunk \<Rightarrow> error + StringBlockChunk" where
  "sbc_run [] c = Inr c"
| "sbc_run (op # ops) c =
     (case sbc_step op c of Inl e \<Rightarrow> Inl e | Inr c' \<Rightarrow> sbc_run ops c')"

section \<open>Properties of the FourCC codec\<close>

subsection \<open>Bytes of a packed word\<close>

lemma ff_mask: "(0xFF :: uint32_t) = mask 8"
  by (simp add: mask_eq_exp_minus_1)

lemma byte_bit_lt: "bit (b :: byte) n \<Longrightarrow> n < 8"
  using bit_imp_le_length [of b n] by auto

lemma byte_bit_high: "8 \<le> n \<Longrightarrow> \<not> bit (b :: byte) n"
  using bit_imp_le_length [of b n] by auto

lemma byte_val3: "drop_bit 24 (pack a b c d) AND 0xFF = ucast a"
  unfolding ff_mask pack_def
  by (rule bit_word_eqI) (auto simp: bit_simps byte_bit_high dest: byte_bit_lt)

lemma byte_val2: "drop_bit 16 (pack a b c d) AND 0xFF = ucast b"
  unfolding ff_mask pack_def
  by (rule bit_word_eqI) (auto simp: bit_simps byte_bit_high dest: byte_bit_lt)

lemma byte_val1: "drop_bit 8 (pack a b c d) AND 0xFF = ucast c"
  unfolding ff_mask pack_def
  by (rule bit_word_eqI) (auto simp: bit_simps byte_bit_high dest: byte_bit_lt)

lemma byte_val0: "pack a b c d AND 0xFF = ucast d"
  unfolding ff_mask pack_def
  by (rule bit_word_eqI) (auto simp: bit_simps byte_bit_high dest: byte_bit_lt)

lemma ucast_ucast_byte: "ucast (ucast (a :: byte) :: uint32_t) = a"
  by (rule bit_word_eqI) (auto simp: bit_simps)

lemma unat_byte_lt: "unat (c :: byte) < 256"
  using unsigned_less [of c, where ?'a = nat] by simp

lemma unat_ucast_byte: "unat (ucast (c :: byte) :: uint32_t) = unat c"
  using unat_byte_lt [of c] by (simp add: unsigned_ucast_eq take_bit_nat_eq_self)

lemma ucast_small: "(ucast (c :: byte) :: uint32_t) \<le> 127 \<longleftrightarrow> c < 0x80"
  by (simp add: word_le_nat_alt word_less_nat_alt unat_ucast_byte) arith

lemma ucast_le_255: "(ucast (c :: byte) :: uint32_t) \<le> 255"
  using unat_byte_lt [of c] by (simp add: word_le_nat_alt unat_ucast_byte)

text \<open>A character below \<open>0x80\<close> has its top bit clear, so both promotions agree on it.\<close>

lemma byte_small_bit: "(c :: byte) < 0x80 \<Longrightarrow> bit c n \<Longrightarrow> n < 7"
proof -
  assume "c < 0x80" and b: "bit c n"
  then have "c AND mask 7 = c" by (simp add: less_mask_eq)
  then have "bit (c AND mask 7) n" using b by (simp only:)
  then show "n < 7" by (simp add: bit_and_iff bit_mask_iff)
qed

lemma scast_small: "(c :: byte) < 0x80 \<Longrightarrow> (scast c :: uint32_t) = ucast c"
  by (rule bit_word_eqI)
    (auto simp: bit_simps min_def split: if_splits dest: byte_bit_lt byte_small_bit)

lemma promote_small: "c < 0x80 \<Longrightarrow> promote cs c = ucast c"
  by (simp add: promote_def scast_small)

subsection \<open>Encoding and decoding\<close>

lemma FourCC_unsigned_pack:
  "FourCC False [a, b, c, d, 0] e = Some (if endian_bool e then pack d c b a else pack a b c d)"
  by (simp add: FourCC_def promote_def pack_def)

lemma FourCC_ascii_pack:
  "a < 0x80 \<Longrightarrow> b < 0x80 \<Longrightarrow> c < 0x80 \<Longrightarrow> d < 0x80 \<Longrightarrow>
   FourCC cs [a, b, c, d, 0] e = Some (if endian_bool e then pack d c b a else pack a b c d)"
  by (simp add: FourCC_def promote_small pack_def)

lemma narrow_char_ucast:
  "\<not> cs \<or> c < 0x80 \<Longrightarrow> narrow_char cs (ucast (c :: byte)) = Some c"
  by (auto simp: narrow_char_def ucast_small ucast_le_255 ucast_ucast_byte)

lemma FourCCStr_pack:
  assumes "\<not> cs \<or> (a < 0x80 \<and> b < 0x80 \<and> c < 0x80 \<and> d < 0x80)"
  shows "FourCCStr cs (if endian_bool e then pack d c b a else pack a b c d) e
         = Some [a, b, c, d, 0]"
  using assms
  by (cases e)
    (auto simp: FourCCStr_def byte_val0 byte_val1 byte_val2 byte_val3 narrow_char_ucast)

lemma length4: "length s = 4 \<Longrightarrow> \<exists>a b c d. s = [a, b, c, d]"
  by (auto simp: length_Suc_conv eval_nat_numeral)

text \<open>
  Claim C1, as the code has it.  For a literal of four characters, decoding the encoded
  tag with the same endianness gives the literal back (\<^verbatim>\<open>FourCCStr<FourCC<s, e>, e> == s\<close>)
  whenever every character is below \<open>0x80\<close> (control characters included), and for all
  byte values where plain \<^verbatim>\<open>char\<close> is unsigned.
\<close>

theorem FourCC_roundtrip:
  assumes "length s = 4" and "\<not> char_signed \<or> (\<forall>c \<in> set s. c < 0x80)"
  shows "FourCCStr_of_FourCC char_signed s e = Some (string_literal s)"
proof -
  from assms(1) obtain a b c d where s: "s = [a, b, c, d]" using length4 by blast
  show ?thesis
  proof (cases char_signed)
    case False
    then show ?thesis
      by (simp add: s FourCCStr_of_FourCC_def string_literal_def FourCC_unsigned_pack
          FourCCStr_pack)
  next
    case True
    with assms(2) s have small: "a < 0x80" "b < 0x80" "c < 0x80" "d < 0x80" by auto
    then show ?thesis
      by (simp add: s FourCCStr_of_FourCC_def string_literal_def FourCC_ascii_pack
          FourCCStr_pack)
  qed
qed

theorem FourCC_roundtrip_witness:
  "length (ascii ''REVM'') = 4 \<and> set (ascii ''REVM'') \<subseteq> {c. c < 0x80}
   \<and> FourCCStr_of_FourCC True (ascii ''REVM'') BIG = Some (string_literal (ascii ''REVM''))"
  using FourCC_roundtrip [of "ascii ''REVM''" True BIG] by (simp add: ascii_def)

text \<open>
  Claim C1 as stated fails where plain \<^verbatim>\<open>char\<close> is signed: a character from \<open>0x80\<close> on
  is sign-extended by the promotion to \<^verbatim>\<open>int\<close> and sets every higher bit of the tag.
  The literals \<^verbatim>\<open>"AAA\xFF"\<close> and \<^verbatim>\<open>"\xFF\xFF\xFF\xFF"\<close> both encode to \<open>0xFFFFFFFF\<close>,
  and decoding does not give the first one back.
\<close>

theorem FourCC_roundtrip_counterexample:
  "FourCC True (string_literal [0x41, 0x41, 0x41, 0xFF]) LITTLE = Some 0xFFFFFFFF
   \<and> FourCC True (string_literal [0xFF, 0xFF, 0xFF, 0xFF]) LITTLE = Some 0xFFFFFFFF
   \<and> FourCCStr_of_FourCC True [0x41, 0x41, 0x41, 0xFF] LITTLE
       \<noteq> Some (string_literal [0x41, 0x41, 0x41, 0xFF])"
  by (simp add: FourCCStr_of_FourCC_def FourCC_def FourCCStr_def string_literal_def
      promote_def narrow_char_def)

text \<open>
  Claim C2, as the code has it.  With \<^verbatim>\<open>LITTLE\<close> the first character of the literal is
  the most significant byte: \<^verbatim>\<open>"REVM"\<close> encodes to \<open>0x5245564D\<close>.  The integer
  \<open>0x4D564552\<close> is the \<^verbatim>\<open>LITTLE\<close> encoding of \<^verbatim>\<open>"MVER"\<close> and the \<^verbatim>\<open>BIG\<close> encoding of
  \<^verbatim>\<open>"REVM"\<close>.
\<close>

theorem FourCC_REVM:
  "FourCC char_signed (string_literal (ascii ''REVM'')) LITTLE = Some 0x5245564D
   \<and> FourCC char_signed (string_literal (ascii ''MVER'')) LITTLE = Some 0x4D564552
   \<and> FourCC char_signed (string_literal (ascii ''REVM'')) BIG = Some 0x4D564552"
  by (simp add: FourCC_def string_literal_def promote_def ascii_def)

text \<open>
  Claim C2 as stated fails: the \<^verbatim>\<open>LITTLE\<close> encoding of \<^verbatim>\<open>"REVM"\<close> is not \<open>0x4D564552\<close>,
  whichever signedness plain \<^verbatim>\<open>char\<close> has.
\<close>

theorem FourCC_REVM_counterexample:
  "FourCC True (string_literal (ascii ''REVM'')) LITTLE \<noteq> Some 0x4D564552
   \<and> FourCC False (string_literal (ascii ''REVM'')) LITTLE \<noteq> Some 0x4D564552"
  by (simp add: FourCC_def string_literal_def promote_def ascii_def)

subsection \<open>The run-time decoder\<close>

lemma narrow_char_Some: "narrow_char cs v = Some c \<Longrightarrow> c = ucast v"
  by (auto simp: narrow_char_def split: if_splits)

lemma FourCCStr_Some:
  "FourCCStr cs f e = Some t \<Longrightarrow>
   t = [ucast (if endian_bool e then f AND 0xFF else drop_bit 24 f AND 0xFF),
        ucast (if endian_bool e then drop_bit 8 f AND 0xFF else drop_bit 16 f AND 0xFF),
        ucast (if endian_bool e then drop_bit 16 f AND 0xFF else drop_bit 8 f AND 0xFF),
        ucast (if endian_bool e then drop_bit 24 f AND 0xFF else f AND 0xFF), 0]"
  unfolding FourCCStr_def
  by (auto split: option.splits dest!: narrow_char_Some)

text \<open>
  Claim C10, as the code has it.  Wherever the instantiation \<^verbatim>\<open>FourCCStr<fourcc, endian>\<close>
  is well-formed, \<^verbatim>\<open>FourCCToStr(fourcc, is_big_endian)\<close> with the corresponding flag returns
  the characters of that array up to its first zero byte; it is the same four-character
  text exactly when none of the four characters is zero.
\<close>

theorem FourCCToStr_FourCCStr:
  assumes "FourCCStr char_signed fourcc e = Some t"
  shows "FourCCToStr fourcc (endian_bool e) = takeWhile (\<lambda>c. c \<noteq> 0) t
         \<and> (FourCCToStr fourcc (endian_bool e) = take 4 t \<longleftrightarrow> 0 \<notin> set (take 4 t))"
  using FourCCStr_Some [OF assms]
  by (simp add: FourCCToStr_def c_str_def Let_def)

theorem FourCCToStr_FourCCStr_witness:
  "FourCCStr True 0x4D564552 LITTLE = Some (string_literal (ascii ''MVER''))
   \<and> FourCCToStr 0x4D564552 (endian_bool LITTLE) = ascii ''MVER''"
  using FourCCToStr_FourCCStr [of True "0x4D564552" LITTLE "string_literal (ascii ''MVER'')"]
  by (simp add: FourCCStr_def narrow_char_def string_literal_def ascii_def)

text \<open>
  Claim C10 as stated fails for an integer with a zero byte: the array of
  \<^verbatim>\<open>FourCCStr<0x41004141>\<close> holds the four characters \<open>41 00 41 41\<close>, while
  \<^verbatim>\<open>FourCCToStr(0x41004141)\<close> is the one-character string \<^verbatim>\<open>"A"\<close>, because the
  \<^verbatim>\<open>std::string\<close> is built from a zero-terminated \<^verbatim>\<open>char\<close> pointer.
\<close>

theorem FourCCToStr_FourCCStr_counterexample:
  "FourCCStr True 0x41004141 LITTLE = Some [0x41, 0, 0x41, 0x41, 0]
   \<and> FourCCStr False 0x41004141 LITTLE = Some [0x41, 0, 0x41, 0x41, 0]
   \<and> FourCCToStr 0x41004141 (endian_bool LITTLE) = [0x41]"
  by (simp add: FourCCStr_def FourCCToStr_def narrow_char_def c_str_def)

section \<open>Properties of the chunk classes\<close>

subsection \<open>Reading and writing\<close>

lemma buf_Read_Inr:
  "buf_Read buf n = Inr (bytes, buf') \<Longrightarrow>
   bytes = take n (drop (buf_pos buf) (buf_bytes buf)) \<and> length bytes = n
   \<and> buf' = buf\<lparr>buf_pos := buf_pos buf + n\<rparr>"
  by (auto simp: buf_Read_def next_bytes_def split: if_splits)

lemma concat_read_elements: "concat (read_elements n count bytes) = take (n * count) bytes"
  by (induction count arbitrary: bytes) (simp_all add: take_add)

lemma terminated_part_Nil [simp]: "terminated_part [] = []"
  by (simp add: terminated_part_def)

lemma terminated_part_Cons:
  "terminated_part (b # bytes) =
     (if 0 \<in> set bytes then b # terminated_part bytes else if b = 0 then [0] else [])"
proof (cases "0 \<in> set bytes")
  case True
  then have "dropWhile (\<lambda>b. b \<noteq> 0) (rev bytes @ [b]) = dropWhile (\<lambda>b. b \<noteq> 0) (rev bytes) @ [b]"
    by (intro dropWhile_append1 [of 0]) auto
  with True show ?thesis by (simp add: terminated_part_def)
next
  case False
  then have "dropWhile (\<lambda>b. b \<noteq> 0) (rev bytes @ [b]) = dropWhile (\<lambda>b. b \<noteq> 0) [b]"
    by (intro dropWhile_append2) auto
  with False show ?thesis by (simp add: terminated_part_def)
qed

lemma terminated_part_no_zero: "0 \<notin> set bytes \<Longrightarrow> terminated_part bytes = []"
  by (induction bytes) (simp_all add: terminated_part_Cons)

lemma terminated_part_tail:
  "terminated_part bytes @ rev (takeWhile (\<lambda>b. b \<noteq> 0) (rev bytes)) = bytes"
proof -
  have "rev (takeWhile (\<lambda>b. b \<noteq> 0) (rev bytes) @ dropWhile (\<lambda>b. b \<noteq> 0) (rev bytes)) = bytes"
    by simp
  then show ?thesis by (simp add: terminated_part_def del: takeWhile_dropWhile_id)
qed

lemma terminated_part_terminated:
  "bytes = [] \<or> last bytes = 0 \<Longrightarrow> terminated_part bytes = bytes"
  by (cases bytes rule: rev_cases) (auto simp: terminated_part_def)

lemma scan_block_encode:
  "encode_strings (map snd (scan_block start run bytes))
   = (if 0 \<in> set bytes then run @ terminated_part bytes else [])"
proof (induction bytes arbitrary: start run)
  case Nil
  show ?case by (simp add: encode_strings_def)
next
  case (Cons b bytes)
  show ?case
  proof (cases "b = 0")
    case True
    have "encode_strings (map snd (scan_block start run (b # bytes)))
          = run @ [0] @ encode_strings (map snd (scan_block (start + length run + 1) [] bytes))"
      using True by (simp add: encode_strings_def)
    also have "\<dots> = run @ [0] @ (if 0 \<in> set bytes then terminated_part bytes else [])"
      by (simp add: Cons.IH)
    also have "\<dots> = run @ terminated_part (b # bytes)"
      using True by (simp add: terminated_part_Cons)
    finally show ?thesis using True by simp
  next
    case False
    have "encode_strings (map snd (scan_block start run (b # bytes)))
          = encode_strings (map snd (scan_block start (run @ [b]) bytes))"
      using False by simp
    also have "\<dots> = (if 0 \<in> set bytes then (run @ [b]) @ terminated_part bytes else [])"
      by (rule Cons.IH)
    finally show ?thesis using False by (simp add: terminated_part_Cons)
  qed
qed

lemma scan_block_terminated_part:
  "encode_strings (map snd (scan_block 0 [] bytes)) = terminated_part bytes"
  by (simp add: scan_block_encode terminated_part_no_zero)

lemma dc_roundtrip:
  assumes "dc_Read sizeof_T c buf sz = Inr (c', buf')"
  shows "dc_Write c' out = Inr (buf_Write out (take (unat sz) (drop (buf_pos buf) (buf_bytes buf))))"
  using assms
  by (auto simp: dc_Read_def dc_Write_def dc_IsInitialized_def split: if_splits sum.splits dest!: buf_Read_Inr)

lemma dac_roundtrip:
  assumes "dac_Read sizeof_T size_min size_max c buf sz = Inr (c', buf')"
  shows "dac_Write c' out = buf_Write out (take (unat sz) (drop (buf_pos buf) (buf_bytes buf)))"
proof -
  from assms have m: "sz mod sizeof_T = 0"
    by (auto simp: dac_Read_def split: if_splits)
  from assms obtain bytes where r: "buf_Read buf (unat sz) = Inr (bytes, buf')"
    and c': "c' = c\<lparr>dac_data := make_container (ArrayImplT size_min size_max)
                          (read_elements (unat sizeof_T) (unat (sz div sizeof_T)) bytes),
                      dac_is_initialized := True\<rparr>"
    by (auto simp: dac_Read_def split: if_splits sum.splits)
  from m have "unat sz mod unat sizeof_T = 0"
    by (metis unat_mod unat_0)
  then have n: "unat sizeof_T * unat (sz div sizeof_T) = unat sz"
    by (simp add: unat_div mod_eq_0_iff_dvd)
  have el: "elements (make_container T xs) = xs" for T xs by (cases T) simp_all
  from buf_Read_Inr [OF r] have b: "bytes = take (unat sz) (drop (buf_pos buf) (buf_bytes buf))" by simp
  have "storage_bytes (dac_data c') = take (unat sz) bytes"
    by (simp add: c' storage_bytes_def el concat_read_elements n)
  also have "\<dots> = bytes" by (simp add: b)
  finally show ?thesis by (simp add: dac_Write_def b)
qed

lemma sbc_roundtrip:
  assumes "sbc_Read c buf sz = Inr (c', buf')"
  shows "sbc_Write c' out = buf_Write out (terminated_part (next_bytes buf (unat sz)))"
proof -
  from assms obtain bytes where r: "buf_Read buf (unat sz) = Inr (bytes, buf')"
    and c': "c' = c\<lparr>sbc_is_initialized := True,
                 sbc_data :=
                   (case sbc_data c of
                      Strings ss \<Rightarrow> Strings (map snd (scan_block 0 [] bytes))
                    | Offset_strings es \<Rightarrow>
                        Offset_strings
                          (map (\<lambda>(pos, s). (of_nat pos, s)) (scan_block 0 [] bytes)))\<rparr>"
    by (auto simp: sbc_Read_def split: sum.splits)
  have "stored_strings (sbc_data c') = map snd (scan_block 0 [] bytes)"
    by (cases "sbc_data c") (simp_all add: c' case_prod_unfold comp_def)
  moreover from buf_Read_Inr [OF r] have "bytes = next_bytes buf (unat sz)"
    by (simp add: next_bytes_def)
  ultimately show ?thesis by (simp add: sbc_Write_def scan_block_terminated_part)
qed

text \<open>
  Claim C3, as the chunk classes are specified.  Whenever \<^verbatim>\<open>Read(stream, size)\<close> accepts the
  \<^verbatim>\<open>size\<close> bytes at the cursor, a following \<^verbatim>\<open>Write\<close> of a \<^verbatim>\<open>DataChunk\<close> or of a
  \<^verbatim>\<open>DataArrayChunk\<close> appends exactly those bytes to the output stream.  A following \<^verbatim>\<open>Write\<close>
  of a \<^verbatim>\<open>StringBlockChunk\<close>, of either variant, appends those bytes up to and including
  their last null terminator, leaving out a trailing run without a zero byte; it appends
  exactly those bytes when the payload is empty or ends with a null terminator.
\<close>

theorem Read_Write_roundtrip:
  "(dc_Read sizeof_T c1 buf sz = Inr (c1', buf1') \<longrightarrow>
      dc_Write c1' out = Inr (buf_Write out (next_bytes buf (unat sz))))
   \<and> (dac_Read sizeof_T size_min size_max c2 buf sz = Inr (c2', buf2') \<longrightarrow>
      dac_Write c2' out = buf_Write out (next_bytes buf (unat sz)))
   \<and> (sbc_Read c3 buf sz = Inr (c3', buf3') \<longrightarrow>
      sbc_Write c3' out = buf_Write out (terminated_part (next_bytes buf (unat sz)))
      \<and> (\<exists>tail. next_bytes buf (unat sz) = terminated_part (next_bytes buf (unat sz)) @ tail
             \<and> 0 \<notin> set tail)
      \<and> (next_bytes buf (unat sz) = [] \<or> last (next_bytes buf (unat sz)) = 0 \<longrightarrow>
           sbc_Write c3' out = buf_Write out (next_bytes buf (unat sz))))"
proof -
  let ?p = "next_bytes buf (unat sz)"
  have t: "\<exists>tail. ?p = terminated_part ?p @ tail \<and> 0 \<notin> set tail"
  proof (intro exI conjI)
    show "?p = terminated_part ?p @ rev (takeWhile (\<lambda>b. b \<noteq> 0) (rev ?p))"
      by (simp only: terminated_part_tail)
    show "0 \<notin> set (rev (takeWhile (\<lambda>b. b \<noteq> 0) (rev ?p)))"
      by (auto dest: set_takeWhileD)
  qed
  from dc_roundtrip [of sizeof_T c1 buf sz c1' buf1' out]
    dac_roundtrip [of sizeof_T size_min size_max c2 buf sz c2' buf2' out]
    sbc_roundtrip [of c3 buf sz c3' buf3' out] t
    terminated_part_terminated [of ?p]
  show ?thesis by (auto simp: next_bytes_def)
qed

theorem Read_Write_roundtrip_witness:
  "dc_Read 4 (DataChunk_new [0, 0, 0, 0]) \<lparr>buf_bytes = [7, 0, 0, 0], buf_pos = 0\<rparr> 4
     = Inr (\<lparr>dc_data = [7, 0, 0, 0], dc_is_initialized = True\<rparr>,
            \<lparr>buf_bytes = [7, 0, 0, 0], buf_pos = 4\<rparr>)
   \<and> dc_Write \<lparr>dc_data = [7, 0, 0, 0], dc_is_initialized = True\<rparr>
        \<lparr>buf_bytes = [], buf_pos = 0\<rparr>
     = Inr \<lparr>buf_bytes = [7, 0, 0, 0], buf_pos = 0\<rparr>
   \<and> dac_Read 2 SIZE_MAX SIZE_MAX (DataArrayChunk_new SIZE_MAX SIZE_MAX (\<lambda>i. [0, 0]))
        \<lparr>buf_bytes = [1, 0, 2, 0], buf_pos = 0\<rparr> 4
     = Inr (\<lparr>dac_data = Vector [[1, 0], [2, 0]], dac_is_initialized = True\<rparr>,
            \<lparr>buf_bytes = [1, 0, 2, 0], buf_pos = 4\<rparr>)
   \<and> dac_Write \<lparr>dac_data = Vector [[1, 0], [2, 0]], dac_is_initialized = True\<rparr>
        \<lparr>buf_bytes = [], buf_pos = 0\<rparr>
     = \<lparr>buf_bytes = [1, 0, 2, 0], buf_pos = 0\<rparr>
   \<and> sbc_Read (StringBlockChunk_new OFFSET)
        \<lparr>buf_bytes = ascii ''foo'' @ [0] @ ascii ''bar'' @ [0], buf_pos = 0\<rparr> 8
     = Inr (\<lparr>sbc_is_initialized = True,
              sbc_data = Offset_strings [(0, ascii ''foo''), (4, ascii ''bar'')]\<rparr>,
            \<lparr>buf_bytes = ascii ''foo'' @ [0] @ ascii ''bar'' @ [0], buf_pos = 8\<rparr>)
   \<and> sbc_Write \<lparr>sbc_is_initialized = True,
                 sbc_data = Offset_strings [(0, ascii ''foo''), (4, ascii ''bar'')]\<rparr>
        \<lparr>buf_bytes = [], buf_pos = 0\<rparr>
     = \<lparr>buf_bytes = ascii ''foo'' @ [0] @ ascii ''bar'' @ [0], buf_pos = 0\<rparr>"
proof -
  let ?out = "\<lparr>buf_bytes = [], buf_pos = 0\<rparr>"
  have r1: "dc_Read 4 (DataChunk_new [0, 0, 0, 0]) \<lparr>buf_bytes = [7, 0, 0, 0], buf_pos = 0\<rparr> 4
     = Inr (\<lparr>dc_data = [7, 0, 0, 0], dc_is_initialized = True\<rparr>,
            \<lparr>buf_bytes = [7, 0, 0, 0], buf_pos = 4\<rparr>)"
    by code_simp
  have r2: "dac_Read 2 SIZE_MAX SIZE_MAX (DataArrayChunk_new SIZE_MAX SIZE_MAX (\<lambda>i. [0, 0]))
        \<lparr>buf_bytes = [1, 0, 2, 0], buf_pos = 0\<rparr> 4
     = Inr (\<lparr>dac_data = Vector [[1, 0], [2, 0]], dac_is_initialized = True\<rparr>,
            \<lparr>buf_bytes = [1, 0, 2, 0], buf_pos = 4\<rparr>)"
    by code_simp
  have r3: "sbc_Read (StringBlockChunk_new OFFSET)
        \<lparr>buf_bytes = ascii ''foo'' @ [0] @ ascii ''bar'' @ [0], buf_pos = 0\<rparr> 8
     = Inr (\<lparr>sbc_is_initialized = True,
              sbc_data = Offset_strings [(0, ascii ''foo''), (4, ascii ''bar'')]\<rparr>,
            \<lparr>buf_bytes = ascii ''foo'' @ [0] @ ascii ''bar'' @ [0], buf_pos = 8\<rparr>)"
    by code_simp
  from r1 Read_Write_roundtrip
      [where sizeof_T = 4 and ?c1.0 = "DataChunk_new [0, 0, 0, 0]"
         and buf = "\<lparr>buf_bytes = [7, 0, 0, 0], buf_pos = 0\<rparr>" and sz = 4 and out = ?out]
  have w1: "dc_Write \<lparr>dc_data = [7, 0, 0, 0], dc_is_initialized = True\<rparr> ?out
     = Inr \<lparr>buf_bytes = [7, 0, 0, 0], buf_pos = 0\<rparr>"
    by (simp add: buf_Write_def next_bytes_def)
  from r2 Read_Write_roundtrip
      [where sizeof_T = 2 and size_min = SIZE_MAX and size_max = SIZE_MAX
         and ?c2.0 = "DataArrayChunk_new SIZE_MAX SIZE_MAX (\<lambda>i. [0, 0])"
         and buf = "\<lparr>buf_bytes = [1, 0, 2, 0], buf_pos = 0\<rparr>" and sz = 4 and out = ?out]
  have w2: "dac_Write \<lparr>dac_data = Vector [[1, 0], [2, 0]], dac_is_initialized = True\<rparr> ?out
     = \<lparr>buf_bytes = [1, 0, 2, 0], buf_pos = 0\<rparr>"
    by (simp add: buf_Write_def next_bytes_def)
  from r3 Read_Write_roundtrip
      [where ?c3.0 = "StringBlockChunk_new OFFSET"
         and buf = "\<lparr>buf_bytes = ascii ''foo'' @ [0] @ ascii ''bar'' @ [0], buf_pos = 0\<rparr>"
         and sz = 8 and out = ?out]
  have w3: "sbc_Write \<lparr>sbc_is_initialized = True,
                 sbc_data = Offset_strings [(0, ascii ''foo''), (4, ascii ''bar'')]\<rparr> ?out
     = \<lparr>buf_bytes = ascii ''foo'' @ [0] @ ascii ''bar'' @ [0], buf_pos = 0\<rparr>"
    by (simp add: buf_Write_def next_bytes_def ascii_def terminated_part_def)
  from r1 w1 r2 w2 r3 w3 show ?thesis by blast
qed

text \<open>
  Claim C3 as stated fails for the string block.  \<^verbatim>\<open>Read\<close> accepts the six bytes
  \<^verbatim>\<open>"foo\0ba"\<close>, whose last run has no terminator, and keeps the one terminated entry
  \<^verbatim>\<open>"foo"\<close>; \<^verbatim>\<open>Write\<close> then emits the four bytes \<^verbatim>\<open>"foo\0"\<close>, not the six that were read.
\<close>

theorem Read_Write_roundtrip_counterexample:
  "sbc_Read (StringBlockChunk_new NORMAL)
     \<lparr>buf_bytes = ascii ''foo'' @ [0] @ ascii ''ba'', buf_pos = 0\<rparr> 6
     = Inr (\<lparr>sbc_is_initialized = True, sbc_data = Strings [ascii ''foo'']\<rparr>,
            \<lparr>buf_bytes = ascii ''foo'' @ [0] @ ascii ''ba'', buf_pos = 6\<rparr>)
   \<and> sbc_Write \<lparr>sbc_is_initialized = True, sbc_data = Strings [ascii ''foo'']\<rparr>
        \<lparr>buf_bytes = [], buf_pos = 0\<rparr>
     = \<lparr>buf_bytes = ascii ''foo'' @ [0], buf_pos = 0\<rparr>
   \<and> sbc_Write \<lparr>sbc_is_initialized = True, sbc_data = Strings [ascii ''foo'']\<rparr>
        \<lparr>buf_bytes = [], buf_pos = 0\<rparr>
     \<noteq> buf_Write \<lparr>buf_bytes = [], buf_pos = 0\<rparr>
         (next_bytes \<lparr>buf_bytes = ascii ''foo'' @ [0] @ ascii ''ba'', buf_pos = 0\<rparr> 6)"
  by (simp add: sbc_Read_def sbc_Write_def StringBlockChunk_new_def buf_Read_def buf_Write_def
      next_bytes_def encode_strings_def ascii_def)

subsection \<open>The initialization flag\<close>

lemma dc_step_init:
  "dc_step sizeof_T T_default op c = Inr c' \<Longrightarrow>
   dc_IsInitialized c' \<longleftrightarrow> dc_IsInitialized c \<or> dc_initializes op"
  by (cases op)
    (auto simp: dc_IsInitialized_def dc_Initialize_def dc_Initialize_value_def dc_Read_def
      dc_Write_def dc_assign_def split: if_splits sum.splits)

lemma dc_run_init:
  "dc_run sizeof_T T_default ops c = Inr c' \<Longrightarrow>
   dc_IsInitialized c' \<longleftrightarrow> dc_IsInitialized c \<or> (\<exists>op \<in> set ops. dc_initializes op)"
proof (induction ops arbitrary: c)
  case Nil
  then show ?case by simp
next
  case (Cons op ops)
  then obtain c1 where s: "dc_step sizeof_T T_default op c = Inr c1"
    and r: "dc_run sizeof_T T_default ops c1 = Inr c'"
    by (auto split: sum.splits)
  from Cons.IH [OF r] dc_step_init [OF s] show ?case by auto
qed

lemma dac_step_init:
  "dac_step sizeof_T size_min size_max T_default op c = Inr c' \<Longrightarrow>
   dac_IsInitialized c' \<longleftrightarrow> dac_IsInitialized c \<or> dac_initializes op"
  by (cases op)
    (auto simp: dac_IsInitialized_def dac_Initialize_def dac_Initialize_n_def
      dac_Initialize_array_def dac_Read_def dac_Add_def dac_Remove_def dac_Clear_def
      dac_At_assign_def split: if_splits sum.splits)

lemma dac_run_init:
  "dac_run sizeof_T size_min size_max T_default ops c = Inr c' \<Longrightarrow>
   dac_IsInitialized c' \<longleftrightarrow> dac_IsInitialized c \<or> (\<exists>op \<in> set ops. dac_initializes op)"
proof (induction ops arbitrary: c)
  case Nil
  then show ?case by simp
next
  case (Cons op ops)
  then obtain c1 where s: "dac_step sizeof_T size_min size_max T_default op c = Inr c1"
    and r: "dac_run sizeof_T size_min size_max T_default ops c1 = Inr c'"
    by (auto split: sum.splits)
  from Cons.IH [OF r] dac_step_init [OF s] show ?case by auto
qed

lemma sbc_step_init:
  "sbc_step op c = Inr c' \<Longrightarrow>
   sbc_IsInitialized c' \<longleftrightarrow> sbc_IsInitialized c \<or> sbc_initializes op"
  by (cases op)
    (auto simp: sbc_IsInitialized_def sbc_Initialize_def sbc_Initialize_strings_def
      sbc_Read_def sbc_Add_def sbc_Remove_def sbc_Clear_def sbc_At_assign_def
      split: if_splits sum.splits option.splits string_storage.splits)

lemma sbc_run_init:
  "sbc_run ops c = Inr c' \<Longrightarrow>
   sbc_IsInitialized c' \<longleftrightarrow> sbc_IsInitialized c \<or> (\<exists>op \<in> set ops. sbc_initializes op)"
proof (induction ops arbitrary: c)
  case Nil
  then show ?case by simp
next
  case (Cons op ops)
  then obtain c1 where s: "sbc_step op c = Inr c1" and r: "sbc_run ops c1 = Inr c'"
    by (auto split: sum.splits)
  from Cons.IH [OF r] sbc_step_init [OF s] show ?case by auto
qed

text \<open>
  Claim C8.  For every chunk type, after any successful run of operations on a freshly
  default-constructed chunk, \<^verbatim>\<open>IsInitialized()\<close> holds exactly if an \<^verbatim>\<open>Initialize\<close> or a
  \<^verbatim>\<open>Read\<close> was among them: it is false on the fresh chunk, stays false under every other
  operation, and is true from the first \<^verbatim>\<open>Initialize\<close> or successful \<^verbatim>\<open>Read\<close> on.
\<close>

theorem IsInitialized_after_run:
  "dc_IsInitialized (DataChunk_new junk1) = False
   \<and> dac_IsInitialized (DataArrayChunk_new size_min size_max junk2) = False
   \<and> sbc_IsInitialized (StringBlockChunk_new type) = False
   \<and> (dc_run sizeof_T T_default ops1 (DataChunk_new junk1) = Inr c1 \<longrightarrow>
      (dc_IsInitialized c1 \<longleftrightarrow> (\<exists>op \<in> set ops1. dc_initializes op)))
   \<and> (dac_run sizeof_T size_min size_max T_default ops2
         (DataArrayChunk_new size_min size_max junk2) = Inr c2 \<longrightarrow>
      (dac_IsInitialized c2 \<longleftrightarrow> (\<exists>op \<in> set ops2. dac_initializes op)))
   \<and> (sbc_run ops3 (StringBlockChunk_new type) = Inr c3 \<longrightarrow>
      (sbc_IsInitialized c3 \<longleftrightarrow> (\<exists>op \<in> set ops3. sbc_initializes op)))"
  using dc_run_init [of sizeof_T T_default ops1 "DataChunk_new junk1" c1]
    dac_run_init [of sizeof_T size_min size_max T_default ops2
      "DataArrayChunk_new size_min size_max junk2" c2]
    sbc_run_init [of ops3 "StringBlockChunk_new type" c3]
  by (simp add: dc_IsInitialized_def DataChunk_new_def dac_IsInitialized_def
      DataArrayChunk_new_def sbc_IsInitialized_def StringBlockChunk_new_def)

theorem IsInitialized_after_run_witness:
  "dc_run 4 [0, 0, 0, 0] [DC_assign [7, 0, 0, 0]] (DataChunk_new [0, 0, 0, 0])
     = Inr \<lparr>dc_data = [7, 0, 0, 0], dc_is_initialized = False\<rparr>
   \<and> \<not> dc_IsInitialized \<lparr>dc_data = [7, 0, 0, 0], dc_is_initialized = False\<rparr>
   \<and> dc_run 4 [0, 0, 0, 0]
       [DC_assign [7, 0, 0, 0], DC_Read \<lparr>buf_bytes = [8, 0, 0, 0], buf_pos = 0\<rparr> 4]
       (DataChunk_new [0, 0, 0, 0])
     = Inr \<lparr>dc_data = [8, 0, 0, 0], dc_is_initialized = True\<rparr>
   \<and> dc_IsInitialized \<lparr>dc_data = [8, 0, 0, 0], dc_is_initialized = True\<rparr>
   \<and> dac_run 4 SIZE_MAX SIZE_MAX [0, 0, 0, 0] [DAC_Add, DAC_Clear]
       (DataArrayChunk_new SIZE_MAX SIZE_MAX (\<lambda>i. [0, 0, 0, 0]))
     = Inr \<lparr>dac_data = Vector [], dac_is_initialized = False\<rparr>
   \<and> \<not> dac_IsInitialized \<lparr>dac_data = Vector [], dac_is_initialized = False\<rparr>
   \<and> dac_run 4 SIZE_MAX SIZE_MAX [0, 0, 0, 0] [DAC_Initialize, DAC_Add]
       (DataArrayChunk_new SIZE_MAX SIZE_MAX (\<lambda>i. [0, 0, 0, 0]))
     = Inr \<lparr>dac_data = Vector [[0, 0, 0, 0]], dac_is_initialized = True\<rparr>
   \<and> dac_IsInitialized \<lparr>dac_data = Vector [[0, 0, 0, 0]], dac_is_initialized = True\<rparr>
   \<and> sbc_run [SBC_Add (ascii ''foo''), SBC_Remove 0] (StringBlockChunk_new NORMAL)
     = Inr \<lparr>sbc_is_initialized = False, sbc_data = Strings []\<rparr>
   \<and> \<not> sbc_IsInitialized \<lparr>sbc_is_initialized = False, sbc_data = Strings []\<rparr>
   \<and> sbc_run [SBC_Initialize, SBC_Add (ascii ''foo'')] (StringBlockChunk_new NORMAL)
     = Inr \<lparr>sbc_is_initialized = True, sbc_data = Strings [ascii ''foo'']\<rparr>
   \<and> sbc_IsInitialized \<lparr>sbc_is_initialized = True, sbc_data = Strings [ascii ''foo'']\<rparr>"
proof -
  have r1: "dc_run 4 [0, 0, 0, 0] [DC_assign [7, 0, 0, 0]] (DataChunk_new [0, 0, 0, 0])
     = Inr \<lparr>dc_data = [7, 0, 0, 0], dc_is_initialized = False\<rparr>"
    by code_simp
  have r2: "dc_run 4 [0, 0, 0, 0]
       [DC_assign [7, 0, 0, 0], DC_Read \<lparr>buf_bytes = [8, 0, 0, 0], buf_pos = 0\<rparr> 4]
       (DataChunk_new [0, 0, 0, 0])
     = Inr \<lparr>dc_data = [8, 0, 0, 0], dc_is_initialized = True\<rparr>"
    by code_simp
  have r3: "dac_run 4 SIZE_MAX SIZE_MAX [0, 0, 0, 0] [DAC_Add, DAC_Clear]
       (DataArrayChunk_new SIZE_MAX SIZE_MAX (\<lambda>i. [0, 0, 0, 0]))
     = Inr \<lparr>dac_data = Vector [], dac_is_initialized = False\<rparr>"
    by code_simp
  have r4: "dac_run 4 SIZE_MAX SIZE_MAX [0, 0, 0, 0] [DAC_Initialize, DAC_Add]
       (DataArrayChunk_new SIZE_MAX SIZE_MAX (\<lambda>i. [0, 0, 0, 0]))
     = Inr \<lparr>dac_data = Vector [[0, 0, 0, 0]], dac_is_initialized = True\<rparr>"
    by code_simp
  have r5: "sbc_run [SBC_Add (ascii ''foo''), SBC_Remove 0] (StringBlockChunk_new NORMAL)
     = Inr \<lparr>sbc_is_initialized = False, sbc_data = Strings []\<rparr>"
    by code_simp
  have r6: "sbc_run [SBC_Initialize, SBC_Add (ascii ''foo'')] (StringBlockChunk_new NORMAL)
     = Inr \<lparr>sbc_is_initialized = True, sbc_data = Strings [ascii ''foo'']\<rparr>"
    by code_simp
  from r1 r3 r5 IsInitialized_after_run
      [where sizeof_T = 4 and T_default = "[0, 0, 0, 0]" and ?ops1.0 = "[DC_assign [7, 0, 0, 0]]"
         and ?junk1.0 = "[0, 0, 0, 0]"
         and size_min = SIZE_MAX and size_max = SIZE_MAX and ?ops2.0 = "[DAC_Add, DAC_Clear]"
         and ?junk2.0 = "\<lambda>i. [0, 0, 0, 0]"
         and ?ops3.0 = "[SBC_Add (ascii ''foo''), SBC_Remove 0]" and type = NORMAL]
  have n: "\<not> dc_IsInitialized \<lparr>dc_data = [7, 0, 0, 0], dc_is_initialized = False\<rparr>
    \<and> \<not> dac_IsInitialized \<lparr>dac_data = Vector [], dac_is_initialized = False\<rparr>
    \<and> \<not> sbc_IsInitialized \<lparr>sbc_is_initialized = False, sbc_data = Strings []\<rparr>"
    by simp
  from r2 r4 r6 IsInitialized_after_run
      [where sizeof_T = 4 and T_default = "[0, 0, 0, 0]"
         and ?ops1.0 = "[DC_assign [7, 0, 0, 0],
                         DC_Read \<lparr>buf_bytes = [8, 0, 0, 0], buf_pos = 0\<rparr> 4]"
         and ?junk1.0 = "[0, 0, 0, 0]"
         and size_min = SIZE_MAX and size_max = SIZE_MAX and ?ops2.0 = "[DAC_Initialize, DAC_Add]"
         and ?junk2.0 = "\<lambda>i. [0, 0, 0, 0]"
         and ?ops3.0 = "[SBC_Initialize, SBC_Add (ascii ''foo'')]" and type = NORMAL]
  have y: "dc_IsInitialized \<lparr>dc_data = [8, 0, 0, 0], dc_is_initialized = True\<rparr>
    \<and> dac_IsInitialized \<lparr>dac_data = Vector [[0, 0, 0, 0]], dac_is_initialized = True\<rparr>
    \<and> sbc_IsInitialized \<lparr>sbc_is_initialized = True, sbc_data = Strings [ascii ''foo'']\<rparr>"
    by simp
  from r1 r2 r3 r4 r5 r6 n y show ?thesis by blast
qed

subsection \<open>Storage of the array chunk\<close>

lemma has_type_make_container:
  "has_type (make_container (ArrayImplT size_min size_max) xs) (ArrayImplT size_min size_max)
   \<longleftrightarrow> (ArrayImplT size_min size_max = std_vector \<or> length xs = unat size_max)"
  by (auto simp: ArrayImplT_def)

lemma cardinality_ok_fixed:
  "cardinality_ok size_min size_max n \<Longrightarrow>
   ArrayImplT size_min size_max = std_vector \<or> n = unat size_max"
  by (auto simp: ArrayImplT_def cardinality_ok_def split: if_splits)

lemma length_read_elements: "length (read_elements n count bytes) = count"
  by (induction count arbitrary: bytes) simp_all

lemma has_type_default:
  "has_type (default_container (ArrayImplT size_min size_max) junk) (ArrayImplT size_min size_max)"
  by (simp add: ArrayImplT_def)

lemma has_type_update:
  "has_type d T \<Longrightarrow> has_type (container_update d i v) T"
  by (cases d; cases T) simp_all

lemma dac_step_has_type:
  assumes "dac_step sizeof_T size_min size_max T_default op c = Inr c'"
    and "has_type (dac_data c) (ArrayImplT size_min size_max)"
  shows "has_type (dac_data c') (ArrayImplT size_min size_max)"
proof (cases op)
  case DAC_Initialize
  with assms show ?thesis by (auto simp: dac_Initialize_def ArrayImplT_def)
next
  case (DAC_Initialize_n v n)
  with assms show ?thesis
    by (auto simp: dac_Initialize_n_def has_type_make_container split: if_splits
        dest: cardinality_ok_fixed)
next
  case (DAC_Initialize_array xs)
  with assms show ?thesis
    by (auto simp: dac_Initialize_array_def has_type_make_container split: if_splits
        dest: cardinality_ok_fixed)
next
  case (DAC_Read buf sz)
  with assms show ?thesis
    by (auto simp: dac_Read_def has_type_make_container length_read_elements
        split: if_splits sum.splits dest: cardinality_ok_fixed)
next
  case (DAC_Write buf)
  with assms show ?thesis by simp
next
  case DAC_Add
  with assms show ?thesis by (auto simp: dac_Add_def Add_requires_def split: if_splits)
next
  case (DAC_Remove i)
  with assms show ?thesis by (auto simp: dac_Remove_def Remove_requires_def split: if_splits)
next
  case DAC_Clear
  with assms show ?thesis by (auto simp: dac_Clear_def Clear_requires_def split: if_splits)
next
  case (DAC_At_assign i v)
  with assms show ?thesis by (auto simp: dac_At_assign_def has_type_update split: if_splits)
qed

lemma dac_run_has_type:
  "dac_run sizeof_T size_min size_max T_default ops c = Inr c' \<Longrightarrow>
   has_type (dac_data c) (ArrayImplT size_min size_max) \<Longrightarrow>
   has_type (dac_data c') (ArrayImplT size_min size_max)"
proof (induction ops arbitrary: c)
  case Nil
  then show ?case by simp
next
  case (Cons op ops)
  then obtain c1 where s: "dac_step sizeof_T size_min size_max T_default op c = Inr c1"
    and r: "dac_run sizeof_T size_min size_max T_default ops c1 = Inr c'"
    by (auto split: sum.splits)
  from dac_step_has_type [OF s Cons.prems(2)] Cons.IH [OF r] show ?case by simp
qed

lemma has_type_std_array:
  "has_type d (std_array n) \<Longrightarrow> (\<exists>xs. d = Array xs \<and> length xs = unat n) \<and> container_size d = n"
  by (cases d) (auto simp: container_size_def)

lemma has_type_std_vector: "has_type d std_vector \<Longrightarrow> \<exists>xs. d = Vector xs"
  by (cases d) auto

text \<open>
  Claim C4.  In every state a \<^verbatim>\<open>DataArrayChunk\<close> reaches from default construction: if
  \<^verbatim>\<open>size_min == size_max\<close> and both are below the \<^verbatim>\<open>std::size_t\<close> maximum, the storage is a
  \<^verbatim>\<open>std::array\<close> of exactly \<^verbatim>\<open>size_max\<close> slots and \<^verbatim>\<open>Size() == size_max\<close>; otherwise the
  storage is a \<^verbatim>\<open>std::vector\<close>.
\<close>

theorem DataArrayChunk_storage:
  assumes "dac_run sizeof_T size_min size_max T_default ops
             (DataArrayChunk_new size_min size_max junk) = Inr c"
  shows "(size_min = size_max \<and> size_max < SIZE_MAX \<longrightarrow>
            ArrayImplT size_min size_max = std_array size_max
            \<and> (\<exists>xs. dac_data c = Array xs \<and> length xs = unat size_max)
            \<and> dac_Size c = size_max)
         \<and> (\<not> (size_min = size_max \<and> size_max < SIZE_MAX) \<longrightarrow>
            ArrayImplT size_min size_max = std_vector \<and> (\<exists>xs. dac_data c = Vector xs))"
proof -
  have "has_type (dac_data (DataArrayChunk_new size_min size_max junk)) (ArrayImplT size_min size_max)"
    by (simp add: DataArrayChunk_new_def has_type_default)
  from dac_run_has_type [OF assms this]
  have t: "has_type (dac_data c) (ArrayImplT size_min size_max)" .
  show ?thesis
  proof (cases "size_min = size_max \<and> size_max < SIZE_MAX")
    case True
    then have a: "ArrayImplT size_min size_max = std_array size_max" by (simp add: ArrayImplT_def)
    with t has_type_std_array [of "dac_data c" size_max] True show ?thesis
      by (simp add: dac_Size_def)
  next
    case False
    then have a: "ArrayImplT size_min size_max = std_vector" by (auto simp: ArrayImplT_def)
    with t has_type_std_vector [of "dac_data c"] False show ?thesis by auto
  qed
qed

theorem DataArrayChunk_storage_witness:
  "dac_run 4 2 2 [0, 0, 0, 0]
     [DAC_Read \<lparr>buf_bytes = [1, 0, 0, 0, 2, 0, 0, 0], buf_pos = 0\<rparr> 8,
      DAC_At_assign 1 [9, 0, 0, 0]]
     (DataArrayChunk_new 2 2 (\<lambda>i. [0, 0, 0, 0]))
     = Inr \<lparr>dac_data = Array [[1, 0, 0, 0], [9, 0, 0, 0]], dac_is_initialized = True\<rparr>
   \<and> ArrayImplT 2 2 = std_array 2
   \<and> dac_Size \<lparr>dac_data = Array [[1, 0, 0, 0], [9, 0, 0, 0]], dac_is_initialized = True\<rparr> = 2
   \<and> dac_run 4 SIZE_MAX SIZE_MAX [0, 0, 0, 0]
       [DAC_Initialize, DAC_Add, DAC_At_assign 0 [5, 0, 0, 0], DAC_Add, DAC_Add, DAC_Remove 1]
       (DataArrayChunk_new SIZE_MAX SIZE_MAX (\<lambda>i. [0, 0, 0, 0]))
     = Inr \<lparr>dac_data = Vector [[5, 0, 0, 0], [0, 0, 0, 0]], dac_is_initialized = True\<rparr>
   \<and> ArrayImplT SIZE_MAX SIZE_MAX = std_vector"
proof -
  have r1: "dac_run 4 2 2 [0, 0, 0, 0]
     [DAC_Read \<lparr>buf_bytes = [1, 0, 0, 0, 2, 0, 0, 0], buf_pos = 0\<rparr> 8,
      DAC_At_assign 1 [9, 0, 0, 0]]
     (DataArrayChunk_new 2 2 (\<lambda>i. [0, 0, 0, 0]))
     = Inr \<lparr>dac_data = Array [[1, 0, 0, 0], [9, 0, 0, 0]], dac_is_initialized = True\<rparr>"
    by code_simp
  have r2: "dac_run 4 SIZE_MAX SIZE_MAX [0, 0, 0, 0]
       [DAC_Initialize, DAC_Add, DAC_At_assign 0 [5, 0, 0, 0], DAC_Add, DAC_Add, DAC_Remove 1]
       (DataArrayChunk_new SIZE_MAX SIZE_MAX (\<lambda>i. [0, 0, 0, 0]))
     = Inr \<lparr>dac_data = Vector [[5, 0, 0, 0], [0, 0, 0, 0]], dac_is_initialized = True\<rparr>"
    by code_simp
  have lt: "(2 :: size_t) < SIZE_MAX" by (simp add: SIZE_MAX_def)
  from DataArrayChunk_storage [OF r1] lt
  have s1: "ArrayImplT 2 2 = std_array 2
    \<and> dac_Size \<lparr>dac_data = Array [[1, 0, 0, 0], [9, 0, 0, 0]], dac_is_initialized = True\<rparr> = 2"
    by simp
  from DataArrayChunk_storage [OF r2]
  have s2: "ArrayImplT SIZE_MAX SIZE_MAX = std_vector" by simp
  from r1 s1 r2 s2 show ?thesis by blast
qed

subsection \<open>Operations of the growable form\<close>

text \<open>
  Claim C6.  The constraints of \<^verbatim>\<open>Add\<close>, of both \<^verbatim>\<open>Remove\<close> overloads and of \<^verbatim>\<open>Clear\<close> are
  satisfied exactly for the vector-backed instantiations: for a fixed-capacity
  instantiation (\<^verbatim>\<open>size_min == size_max\<close>, both finite) none of the four is, so the
  operations do not exist there.  The constraints depend on the template arguments only,
  not on the state of a chunk.
\<close>

theorem Add_Remove_Clear_growable_only:
  "(size_min = size_max \<and> size_max < SIZE_MAX \<longrightarrow>
      \<not> Add_requires size_min size_max \<and> \<not> Remove_requires size_min size_max
      \<and> \<not> Remove_iterator_requires size_min size_max \<and> \<not> Clear_requires size_min size_max)
   \<and> (\<not> (size_min = size_max \<and> size_max < SIZE_MAX) \<longrightarrow>
      Add_requires size_min size_max \<and> Remove_requires size_min size_max
      \<and> Remove_iterator_requires size_min size_max \<and> Clear_requires size_min size_max)"
  by (auto simp: Add_requires_def Remove_requires_def Remove_iterator_requires_def
      Clear_requires_def ArrayImplT_def)

theorem Add_Remove_Clear_growable_only_witness:
  "(2 :: size_t) < SIZE_MAX
   \<and> \<not> Add_requires 2 2 \<and> \<not> Remove_requires 2 2
   \<and> \<not> Remove_iterator_requires 2 2 \<and> \<not> Clear_requires 2 2
   \<and> Add_requires SIZE_MAX SIZE_MAX \<and> Remove_requires SIZE_MAX SIZE_MAX
   \<and> Remove_iterator_requires SIZE_MAX SIZE_MAX \<and> Clear_requires SIZE_MAX SIZE_MAX"
  using Add_Remove_Clear_growable_only [of 2 2]
    Add_Remove_Clear_growable_only [of SIZE_MAX SIZE_MAX]
  by (simp add: SIZE_MAX_def)

subsection \<open>Byte size of the array chunk\<close>

lemma length_concat_uniform:
  "\<forall>x \<in> set xs. length x = n \<Longrightarrow> length (concat xs) = length xs * n"
  by (induction xs) simp_all

lemma nth_concat_uniform:
  "\<forall>x \<in> set xs. length x = n \<Longrightarrow> i < length xs \<Longrightarrow>
   take n (drop (i * n) (concat xs)) = xs ! i"
proof (induction xs arbitrary: i)
  case Nil
  then show ?case by simp
next
  case (Cons x xs)
  show ?case
  proof (cases i)
    case 0
    with Cons.prems show ?thesis by simp
  next
    case (Suc j)
    with Cons.prems have "take n (drop (j * n) (concat xs)) = xs ! j"
      by (intro Cons.IH) auto
    with Cons.prems Suc show ?thesis by (simp add: add.commute)
  qed
qed

lemma unat_of_nat_mult:
  "n * unat (s :: size_t) < 2 ^ 64 \<Longrightarrow> unat (of_nat n * s) = n * unat s"
proof -
  assume a: "n * unat s < 2 ^ 64"
  have "unat (of_nat n * s) = (unat (of_nat n :: size_t) * unat s) mod 2 ^ 64"
    by (simp add: unat_word_ariths)
  also have "\<dots> = ((n mod 2 ^ 64) * unat s) mod 2 ^ 64"
    by (simp add: unat_of_nat)
  also have "\<dots> = (n * unat s) mod 2 ^ 64"
    by (simp add: mod_mult_left_eq)
  also have "\<dots> = n * unat s" using a by simp
  finally show ?thesis .
qed

text \<open>
  Claim C7.  In every state of a \<^verbatim>\<open>DataArrayChunk\<close>, \<^verbatim>\<open>ByteSize()\<close> is \<^verbatim>\<open>Size() * sizeof(T)\<close>
  (in \<^verbatim>\<open>std::size_t\<close> arithmetic), and \<^verbatim>\<open>Write\<close> appends the elements one after the other
  to the stream.  With every element \<^verbatim>\<open>sizeof(T)\<close> bytes long, the payload that \<^verbatim>\<open>Write\<close>
  appends is \<open>count * sizeof(T)\<close> bytes, the element at index \<open>i\<close> lying at byte
  \<open>i * sizeof(T)\<close> of it, and its length is \<^verbatim>\<open>ByteSize()\<close>; the same holds of the storage
  of the container.
\<close>

theorem DataArrayChunk_ByteSize:
  "dac_ByteSize sizeof_T c = dac_Size c * sizeof_T
   \<and> buf_bytes (dac_Write c out) = buf_bytes out @ concat (elements (dac_data c))
   \<and> ((\<forall>x \<in> set (elements (dac_data c)). length x = unat sizeof_T) \<longrightarrow>
        length (buf_bytes (dac_Write c out))
          = length (buf_bytes out) + length (elements (dac_data c)) * unat sizeof_T
        \<and> (\<forall>i < length (elements (dac_data c)).
             take (unat sizeof_T)
               (drop (length (buf_bytes out) + i * unat sizeof_T) (buf_bytes (dac_Write c out)))
             = elements (dac_data c) ! i)
        \<and> (length (elements (dac_data c)) * unat sizeof_T < 2 ^ 64 \<longrightarrow>
             length (buf_bytes (dac_Write c out))
               = length (buf_bytes out) + unat (dac_ByteSize sizeof_T c))
        \<and> length (storage_bytes (dac_data c)) = length (elements (dac_data c)) * unat sizeof_T
        \<and> (\<forall>i < length (elements (dac_data c)).
             take (unat sizeof_T) (drop (i * unat sizeof_T) (storage_bytes (dac_data c)))
             = elements (dac_data c) ! i)
        \<and> (length (storage_bytes (dac_data c)) < 2 ^ 64 \<longrightarrow>
             unat (dac_ByteSize sizeof_T c) = length (storage_bytes (dac_data c))))"
proof -
  let ?xs = "elements (dac_data c)"
  let ?n = "unat sizeof_T"
  have 1: "dac_ByteSize sizeof_T c = dac_Size c * sizeof_T"
    by (simp add: dac_ByteSize_def dac_Size_def)
  have w: "buf_bytes (dac_Write c out) = buf_bytes out @ concat ?xs"
    by (simp add: dac_Write_def buf_Write_def storage_bytes_def)
  have sb: "storage_bytes (dac_data c) = concat ?xs"
    by (simp add: storage_bytes_def)
  have 2: "length (concat ?xs) = length ?xs * ?n" if "\<forall>x \<in> set ?xs. length x = ?n"
    using that by (rule length_concat_uniform)
  have 3: "take ?n (drop (i * ?n) (concat ?xs)) = ?xs ! i"
    if "\<forall>x \<in> set ?xs. length x = ?n" and "i < length ?xs" for i
    using that by (rule nth_concat_uniform)
  have 4: "unat (dac_ByteSize sizeof_T c) = length ?xs * ?n" if "length ?xs * ?n < 2 ^ 64"
    using that by (simp add: dac_ByteSize_def container_size_def unat_of_nat_mult)
  from 1 w sb 2 3 4 show ?thesis by (auto simp: w sb)
qed

theorem DataArrayChunk_ByteSize_witness:
  "dac_ByteSize 4 \<lparr>dac_data = Vector [[1, 0, 0, 0], [2, 0, 0, 0], [3, 0, 0, 0]],
                    dac_is_initialized = True\<rparr> = 12
   \<and> dac_Size \<lparr>dac_data = Vector [[1, 0, 0, 0], [2, 0, 0, 0], [3, 0, 0, 0]],
                dac_is_initialized = True\<rparr> = 3
   \<and> storage_bytes (Vector [[1, 0, 0, 0], [2, 0, 0, 0], [3, 0, 0, 0]])
       = [1, 0, 0, 0, 2, 0, 0, 0, 3, 0, 0, 0]
   \<and> unat (dac_ByteSize 4 \<lparr>dac_data = Vector [[1, 0, 0, 0], [2, 0, 0, 0], [3, 0, 0, 0]],
                             dac_is_initialized = True\<rparr>)
       = length (storage_bytes (Vector [[1, 0, 0, 0], [2, 0, 0, 0], [3, 0, 0, 0]]))
   \<and> dac_Write \<lparr>dac_data = Vector [[1, 0, 0, 0], [2, 0, 0, 0], [3, 0, 0, 0]],
                 dac_is_initialized = True\<rparr> \<lparr>buf_bytes = [9, 9], buf_pos = 0\<rparr>
       = \<lparr>buf_bytes = [9, 9, 1, 0, 0, 0, 2, 0, 0, 0, 3, 0, 0, 0], buf_pos = 0\<rparr>
   \<and> length (buf_bytes (dac_Write \<lparr>dac_data = Vector [[1, 0, 0, 0], [2, 0, 0, 0], [3, 0, 0, 0]],
                 dac_is_initialized = True\<rparr> \<lparr>buf_bytes = [9, 9], buf_pos = 0\<rparr>)) = 2 + 12"
proof -
  let ?c = "\<lparr>dac_data = Vector [[1, 0, 0, 0], [2, 0, 0, 0], [3, 0, 0, 0 :: byte]],
             dac_is_initialized = True\<rparr>"
  let ?out = "\<lparr>buf_bytes = [9, 9 :: byte], buf_pos = 0 :: nat\<rparr>"
  have el: "\<forall>x \<in> set (elements (dac_data ?c)). length x = unat (4 :: size_t)"
    by simp
  have sb: "storage_bytes (Vector [[1, 0, 0, 0], [2, 0, 0, 0], [3, 0, 0, 0]])
       = [1, 0, 0, 0, 2, 0, 0, 0, 3, 0, 0, 0]"
    by (simp add: storage_bytes_def)
  have sz: "dac_Size ?c = 3"
    by (simp add: dac_Size_def container_size_def)
  have wr: "dac_Write ?c ?out
       = \<lparr>buf_bytes = [9, 9, 1, 0, 0, 0, 2, 0, 0, 0, 3, 0, 0, 0], buf_pos = 0\<rparr>"
    by (simp add: dac_Write_def buf_Write_def storage_bytes_def)
  from DataArrayChunk_ByteSize [of 4 ?c ?out] el sb sz
  have "dac_ByteSize 4 ?c = 12
    \<and> unat (dac_ByteSize 4 ?c)
        = length (storage_bytes (Vector [[1, 0, 0, 0], [2, 0, 0, 0], [3, 0, 0, 0]]))
    \<and> length (buf_bytes (dac_Write ?c ?out)) = 2 + 12"
    by simp
  with sb sz wr show ?thesis by simp
qed

subsection \<open>Clear\<close>

text \<open>
  Claim C9.  \<^verbatim>\<open>Clear()\<close> on an initialized growable array chunk or on an initialized
  string block leaves a chunk with \<^verbatim>\<open>Size() == 0\<close> that is still initialized; apart from
  the stored elements the chunk is unchanged.
\<close>

theorem Clear_empties:
  "(Clear_requires size_min size_max \<and> dac_IsInitialized c1 \<longrightarrow>
      (\<exists>c1'. dac_Clear size_min size_max c1 = Inr c1' \<and> dac_Size c1' = 0
         \<and> dac_IsInitialized c1' \<and> c1' = c1\<lparr>dac_data := dac_data c1'\<rparr>))
   \<and> (sbc_IsInitialized c2 \<longrightarrow>
      sbc_Size (sbc_Clear c2) = 0 \<and> sbc_IsInitialized (sbc_Clear c2)
      \<and> sbc_Clear c2 = c2\<lparr>sbc_data := sbc_data (sbc_Clear c2)\<rparr>
      \<and> storage_type (sbc_data (sbc_Clear c2)) = storage_type (sbc_data c2))"
  by (cases "sbc_data c2"; cases "storage_type (sbc_data c2)")
   (auto simp: dac_Clear_def dac_Size_def container_size_def dac_IsInitialized_def
      sbc_Clear_def sbc_Size_def sbc_IsInitialized_def)

theorem Clear_empties_witness:
  "Clear_requires SIZE_MAX SIZE_MAX
   \<and> dac_Clear SIZE_MAX SIZE_MAX
        \<lparr>dac_data = Vector [[1, 0, 0, 0], [2, 0, 0, 0]], dac_is_initialized = True\<rparr>
      = Inr \<lparr>dac_data = Vector [], dac_is_initialized = True\<rparr>
   \<and> dac_Size \<lparr>dac_data = Vector [], dac_is_initialized = True\<rparr> = 0
   \<and> sbc_Clear \<lparr>sbc_is_initialized = True, sbc_data = Offset_strings [(0, ascii ''foo'')]\<rparr>
      = \<lparr>sbc_is_initialized = True, sbc_data = Offset_strings []\<rparr>
   \<and> sbc_Size \<lparr>sbc_is_initialized = True, sbc_data = Offset_strings []\<rparr> = 0"
  using Clear_empties [of SIZE_MAX SIZE_MAX
      "\<lparr>dac_data = Vector [[1, 0, 0, 0], [2, 0, 0, 0]], dac_is_initialized = True\<rparr>"
      "\<lparr>sbc_is_initialized = True, sbc_data = Offset_strings [(0, ascii ''foo'')]\<rparr>"]
  by (simp add: Clear_requires_def ArrayImplT_def dac_Clear_def dac_Size_def container_size_def
      sbc_Clear_def sbc_Size_def)

subsection \<open>Add on the offset string block\<close>

lemma sbc_Add_offset:
  assumes "sbc_data c = Offset_strings es"
  shows "(string \<in> snd ` set es \<longrightarrow> sbc_Add c string = c)
         \<and> (string \<notin> snd ` set es \<longrightarrow>
              sbc_data (sbc_Add c string) = Offset_strings (es @ [(ucast (sbc_ByteSize c), string)])
              \<and> sbc_Size (sbc_Add c string) = sbc_Size c + 1)
         \<and> sbc_IsInitialized (sbc_Add c string) = sbc_IsInitialized c"
  using assms by (auto simp: sbc_Add_def sbc_Size_def sbc_IsInitialized_def)

lemma ucast_of_nat_small:
  "n < 2 ^ 32 \<Longrightarrow> unat (ucast (of_nat n :: size_t) :: uint32_t) = n"
proof -
  assume a: "n < 2 ^ 32"
  then have "n < 2 ^ 64" by (rule less_le_trans) simp
  then have "unat (of_nat n :: size_t) = n" by (simp add: unat_of_nat)
  then show ?thesis using a by (simp add: unsigned_ucast_eq take_bit_nat_eq_self)
qed

text \<open>
  Claim C5.  On an \<^verbatim>\<open>OFFSET\<close> string block, \<^verbatim>\<open>Add(string)\<close> leaves the chunk as it is when a
  byte-identical string is stored already; otherwise it appends the string with the
  chunk's \<^verbatim>\<open>ByteSize()\<close> before the insertion as its offset, and \<^verbatim>\<open>Size()\<close> grows by one.
  On an empty block, \<^verbatim>\<open>Add("foo")\<close> twice gives one entry, and \<^verbatim>\<open>Add("foo")\<close> then
  \<^verbatim>\<open>Add("bar")\<close> gives two, the second at offset \<open>len("foo") + 1\<close>.
\<close>

theorem StringBlockChunk_Add_OFFSET:
  "(sbc_data c = Offset_strings es \<longrightarrow>
      (string \<in> snd ` set es \<longrightarrow> sbc_Add c string = c)
      \<and> (string \<notin> snd ` set es \<longrightarrow>
           sbc_data (sbc_Add c string)
             = Offset_strings (es @ [(ucast (sbc_ByteSize c), string)])
           \<and> sbc_Size (sbc_Add c string) = sbc_Size c + 1
           \<and> (encoded_length (map snd es) < 2 ^ 32 \<longrightarrow>
                unat (ucast (sbc_ByteSize c) :: uint32_t) = encoded_length (map snd es))))
   \<and> sbc_Size (sbc_Add (sbc_Add (sbc_Initialize (StringBlockChunk_new OFFSET)) (ascii ''foo''))
                 (ascii ''foo'')) = 1
   \<and> sbc_data (sbc_Add (sbc_Add (sbc_Initialize (StringBlockChunk_new OFFSET)) (ascii ''foo''))
                 (ascii ''bar''))
       = Offset_strings [(0, ascii ''foo''), (of_nat (length ''foo'' + 1), ascii ''bar'')]"
proof -
  have "unat (ucast (sbc_ByteSize c) :: uint32_t) = encoded_length (map snd es)"
    if "sbc_data c = Offset_strings es" "encoded_length (map snd es) < 2 ^ 32"
    using that by (simp add: sbc_ByteSize_def ucast_of_nat_small)
  moreover have "sbc_Size (sbc_Add (sbc_Add (sbc_Initialize (StringBlockChunk_new OFFSET))
      (ascii ''foo'')) (ascii ''foo'')) = 1"
    by (simp add: sbc_Add_def sbc_Initialize_def StringBlockChunk_new_def sbc_Size_def
        sbc_ByteSize_def encoded_length_def ascii_def)
  moreover have "sbc_data (sbc_Add (sbc_Add (sbc_Initialize (StringBlockChunk_new OFFSET))
      (ascii ''foo'')) (ascii ''bar''))
       = Offset_strings [(0, ascii ''foo''), (of_nat (length ''foo'' + 1), ascii ''bar'')]"
    by (simp add: sbc_Add_def sbc_Initialize_def StringBlockChunk_new_def sbc_Size_def
        sbc_ByteSize_def encoded_length_def ascii_def)
  ultimately show ?thesis
    using sbc_Add_offset [of c es string] by blast
qed

theorem StringBlockChunk_Add_OFFSET_witness:
  "sbc_data (sbc_Add (sbc_Initialize (StringBlockChunk_new OFFSET)) (ascii ''foo''))
     = Offset_strings [(0, ascii ''foo'')]
   \<and> sbc_Add (sbc_Add (sbc_Initialize (StringBlockChunk_new OFFSET)) (ascii ''foo''))
        (ascii ''foo'')
     = sbc_Add (sbc_Initialize (StringBlockChunk_new OFFSET)) (ascii ''foo'')
   \<and> sbc_data (sbc_Add (sbc_Add (sbc_Initialize (StringBlockChunk_new OFFSET)) (ascii ''foo''))
        (ascii ''bar''))
     = Offset_strings [(0, ascii ''foo''), (4, ascii ''bar'')]
   \<and> sbc_ByteSize (sbc_Add (sbc_Initialize (StringBlockChunk_new OFFSET)) (ascii ''foo'')) = 4"
  using StringBlockChunk_Add_OFFSET
    [of "sbc_Add (sbc_Initialize (StringBlockChunk_new OFFSET)) (ascii ''foo'')"
        "[(0, ascii ''foo'')]" "ascii ''foo''"]
    StringBlockChunk_Add_OFFSET
    [of "sbc_Add (sbc_Initialize (StringBlockChunk_new OFFSET)) (ascii ''foo'')"
        "[(0, ascii ''foo'')]" "ascii ''bar''"]
  by (simp add: sbc_Add_def sbc_Initialize_def StringBlockChunk_new_def sbc_ByteSize_def
      encoded_length_def ascii_def)

end
